theory Spec2Isabelle
  imports Complex_Main
begin

section \<open>JSON values and the Foundation services the Swift layer relies on\<close>

text \<open>
  The Swift layer works on \<open>Any\<close>-typed trees produced by \<open>JSONSerialization\<close>.
  They are modelled as a closed datatype; a dictionary is an association list read with
  \<open>map_of\<close>. Numbers are never inspected by the code modelled here.
\<close>

datatype json =
    JNull
  | JBool bool
  | JNumber int
  | JString string
  | JArray "json list"
  | JObject "(string \<times> json) list"

type_synonym dict = "(string \<times> json) list"

text \<open>The conditional casts \<open>as? String\<close>, \<open>as? [String: Any]\<close> and \<open>as? [[String: Any]]\<close>.\<close>

fun asString :: "json \<Rightarrow> string option" where
  "asString (JString s) = Some s"
| "asString _ = None"

fun asDict :: "json \<Rightarrow> dict option" where
  "asDict (JObject kv) = Some kv"
| "asDict _ = None"

fun asDictArray :: "json \<Rightarrow> dict list option" where
  "asDictArray (JArray xs) = those (map asDict xs)"
| "asDictArray _ = None"

text \<open>
  The platform services are parameters of the model: \<open>jsonObject\<close> is
  \<open>JSONSerialization.jsonObject(with:)\<close> (\<open>None\<close> when it throws), \<open>jsonText\<close> is
  \<open>JSONSerialization.data(withJSONObject:)\<close> followed by \<open>String(data:encoding:)\<close>, and
  \<open>interpolate\<close> is the string interpolation of an \<open>Any\<close> value.
\<close>

record platform =
  jsonObject :: "string \<Rightarrow> json option"
  jsonText :: "json \<Rightarrow> string option"
  interpolate :: "json \<Rightarrow> string"

section \<open>Messages and transcript entries\<close>

record chatMessage =
  role :: string
  content :: "string option"
  name :: "string option"
  tool_call_id :: "string option"
  tool_calls :: "dict list option"

datatype segment = Text string

datatype toolDefinition = ToolDefinition string string json

datatype toolCall = ToolCall string string string string

datatype toolOutput = ToolOutput (outputId: string) (outputToolName: string) (outputSegments: "segment list")

datatype entry =
    Instructions "segment list" "toolDefinition list"
  | Prompt "segment list"
  | ToolCalls "toolCall list"
  | Response "string list" "segment list"
  | ToolOutputEntry toolOutput

text \<open>
  \<open>String.lowercased()\<close> on the role. The roles are compared with ASCII literals, and no
  character outside \<open>A\<close>..\<open>Z\<close> lowercases to a letter of \<open>system\<close>, \<open>user\<close>, \<open>assistant\<close>
  or \<open>tool\<close>, so the ASCII table decides every comparison of the code.
\<close>

definition lowercasedChar :: "char \<Rightarrow> char" where
  "lowercasedChar c =
     (case map_of (zip ''ABCDEFGHIJKLMNOPQRSTUVWXYZ'' ''abcdefghijklmnopqrstuvwxyz'') c of
        Some d \<Rightarrow> d
      | None \<Rightarrow> c)"

definition lowercased :: "string \<Rightarrow> string" where
  "lowercased s = map lowercasedChar s"

definition orEmpty :: "string option \<Rightarrow> string" where
  "orEmpty s = (case s of Some c \<Rightarrow> c | None \<Rightarrow> [])"

section \<open>Transcript builder\<close>

definition createInstructions :: "chatMessage \<Rightarrow> entry" where
  "createInstructions message = Instructions [Text (orEmpty (content message))] []"

definition createPrompt :: "chatMessage \<Rightarrow> segment list" where
  "createPrompt message = [Text (orEmpty (content message))]"

definition createResponse :: "chatMessage \<Rightarrow> entry" where
  "createResponse message = Response [] [Text (orEmpty (content message))]"

text \<open>The test \<open>allSatisfy\<close> applies to a tool-call array: a \<open>function\<close> dictionary with a \<open>name\<close>.\<close>

definition hasFunctionName :: "dict \<Rightarrow> bool" where
  "hasFunctionName call =
     (case map_of call ''function'' of
        None \<Rightarrow> False
      | Some f \<Rightarrow> (case asDict f of None \<Rightarrow> False | Some function \<Rightarrow> map_of function ''name'' \<noteq> None))"

definition parseArguments :: "platform \<Rightarrow> dict \<Rightarrow> dict option" where
  "parseArguments P function =
     (case map_of function ''arguments'' of
        None \<Rightarrow> None
      | Some a \<Rightarrow>
          (case asString a of
             None \<Rightarrow> None
           | Some argsString \<Rightarrow>
               (case jsonObject P argsString of None \<Rightarrow> None | Some j \<Rightarrow> asDict j)))"

definition createGeneratedContentFromDictionary :: "platform \<Rightarrow> dict \<Rightarrow> string option" where
  "createGeneratedContentFromDictionary P d = jsonText P (JObject d)"

definition convertOpenAIToolCall :: "platform \<Rightarrow> dict \<Rightarrow> toolCall option" where
  "convertOpenAIToolCall P call =
     (case Option.bind (map_of call ''id'') asString of
        None \<Rightarrow> None
      | Some ident \<Rightarrow>
          (case Option.bind (map_of call ''function'') asDict of
             None \<Rightarrow> None
           | Some function \<Rightarrow>
               (case Option.bind (map_of function ''name'') asString of
                  None \<Rightarrow> None
                | Some nm \<Rightarrow>
                    (let arguments = (case parseArguments P function of Some args \<Rightarrow> args | None \<Rightarrow> []);
                         description = orEmpty (Option.bind (map_of function ''description'') asString)
                     in case createGeneratedContentFromDictionary P arguments of
                          None \<Rightarrow> None
                        | Some c \<Rightarrow> Some (ToolCall ident nm c description)))))"

definition convertOpenAIToolCalls :: "platform \<Rightarrow> dict list \<Rightarrow> toolCall list" where
  "convertOpenAIToolCalls P calls = List.map_filter (convertOpenAIToolCall P) calls"

fun joined :: "string \<Rightarrow> string list \<Rightarrow> string" where
  "joined sep [] = []"
| "joined sep [x] = x"
| "joined sep (x # y # ys) = x @ sep @ joined sep (y # ys)"

definition legacyCallSummary :: "platform \<Rightarrow> dict \<Rightarrow> string option" where
  "legacyCallSummary P call =
     (case Option.bind (map_of call ''function'') asDict of
        None \<Rightarrow> None
      | Some function \<Rightarrow>
          (case Option.bind (map_of function ''name'') asString of
             None \<Rightarrow> None
           | Some nm \<Rightarrow>
               (case parseArguments P function of
                  Some args \<Rightarrow>
                    Some (nm @ ''('' @ joined '', '' (map (\<lambda>(k, v). k @ ''='' @ interpolate P v) args) @ '')'')
                | None \<Rightarrow> Some (nm @ ''()''))))"

definition legacyAssistantEntry :: "platform \<Rightarrow> chatMessage \<Rightarrow> entry" where
  "legacyAssistantEntry P message =
     (case Option.bind (Option.bind (content message) (jsonObject P)) asDictArray of
        Some legacy \<Rightarrow>
          if legacy \<noteq> [] \<and> list_all hasFunctionName legacy
          then Response [] [Text (joined '', '' (List.map_filter (legacyCallSummary P) legacy))]
          else createResponse message
      | None \<Rightarrow> createResponse message)"

definition createAssistantEntry :: "platform \<Rightarrow> chatMessage \<Rightarrow> entry" where
  "createAssistantEntry P message =
     (case tool_calls message of
        Some calls \<Rightarrow>
          if calls \<noteq> [] \<and> list_all hasFunctionName calls
          then ToolCalls (convertOpenAIToolCalls P calls)
          else legacyAssistantEntry P message
      | None \<Rightarrow> legacyAssistantEntry P message)"

text \<open>One record of a tool message: \<open>id\<close>, \<open>toolName\<close> and the text segments; other records are skipped.\<close>

definition textSegment :: "dict \<Rightarrow> segment option" where
  "textSegment seg =
     (case Option.bind (map_of seg ''type'') asString of
        None \<Rightarrow> None
      | Some ty \<Rightarrow>
          if ty = ''text''
          then map_option Text (Option.bind (map_of seg ''text'') asString)
          else None)"

definition toolCallRecord :: "dict \<Rightarrow> entry option" where
  "toolCallRecord toolCall =
     (case Option.bind (map_of toolCall ''id'') asString of
        None \<Rightarrow> None
      | Some ident \<Rightarrow>
          (case Option.bind (map_of toolCall ''toolName'') asString of
             None \<Rightarrow> None
           | Some toolName \<Rightarrow>
               (case Option.bind (map_of toolCall ''segments'') asDictArray of
                  None \<Rightarrow> None
                | Some segs \<Rightarrow>
                    Some (ToolOutputEntry (ToolOutput ident toolName (List.map_filter textSegment segs))))))"

definition createToolOutputEntry :: "platform \<Rightarrow> chatMessage \<Rightarrow> entry list" where
  "createToolOutputEntry P message =
     (if role message \<noteq> ''tool'' then []
      else case content message of
             None \<Rightarrow> []
           | Some c \<Rightarrow>
               (case Option.bind (jsonObject P c) asDict of
                  None \<Rightarrow> []
                | Some messageObject \<Rightarrow>
                    (case Option.bind (map_of messageObject ''tool_calls'') asDictArray of
                       None \<Rightarrow> []
                     | Some toolCalls \<Rightarrow> List.map_filter toolCallRecord toolCalls)))"

text \<open>
  The filter closure of the \<open>tool\<close> case: it reads and extends \<open>seenToolOutputIDs\<close> while it
  runs, so the set is threaded through and returned.
\<close>

fun filterSeen :: "entry list \<Rightarrow> string set \<Rightarrow> entry list \<times> string set" where
  "filterSeen [] seen = ([], seen)"
| "filterSeen (ToolOutputEntry output # es) seen =
     (if outputId output \<in> seen then filterSeen es seen
      else (let (kept, seen') = filterSeen es (insert (outputId output) seen)
            in (ToolOutputEntry output # kept, seen')))"
| "filterSeen (e # es) seen = (let (kept, seen') = filterSeen es seen in (e # kept, seen'))"

text \<open>The loop over the non-system messages, with the entries built so far and the seen ids.\<close>

fun convertLoop :: "platform \<Rightarrow> chatMessage list \<Rightarrow> entry list \<Rightarrow> string set \<Rightarrow> entry list" where
  "convertLoop P [] entries seen = entries"
| "convertLoop P (message # rest) entries seen =
     (if lowercased (role message) = ''user''
        then convertLoop P rest (entries @ [Prompt (createPrompt message)]) seen
      else if lowercased (role message) = ''assistant''
        then convertLoop P rest (entries @ [createAssistantEntry P message]) seen
      else if lowercased (role message) = ''tool''
        then (let (toolEntries, seen') = filterSeen (createToolOutputEntry P message) seen
              in convertLoop P rest (entries @ toolEntries) seen')
      else convertLoop P rest (entries @ [Prompt (createPrompt message)]) seen)"

definition convertMessagesToTranscript :: "platform \<Rightarrow> chatMessage list \<Rightarrow> entry list" where
  "convertMessagesToTranscript P messages =
     convertLoop P (filter (\<lambda>m. lowercased (role m) \<noteq> ''system'') messages) [] {}"

section \<open>Conversation context\<close>

datatype availability =
    Available
  | DeviceNotEligible
  | AppleIntelligenceNotEnabled
  | ModelNotReady
  | UnknownReason
  | UnknownStatus

datatype conversationError =
    IntelligenceUnavailable string
  | InvalidJSON string
  | NoMessages

text \<open>What a \<open>throws\<close> function of the Swift layer can throw: its own error or a foreign one,
  of which only the \<open>localizedDescription\<close> is used.\<close>

datatype thrown = Conversation conversationError | Foreign string

record generationOptions =
  temperature :: "real option"
  maximumResponseTokens :: "int option"

record conversationContext =
  currentPrompt :: string
  transcriptEntries :: "entry list"
  options :: generationOptions

definition unavailableReason :: "availability \<Rightarrow> string" where
  "unavailableReason a =
     (case a of
        Available \<Rightarrow> ''Available''
      | DeviceNotEligible \<Rightarrow> ''Device not eligible for Apple Intelligence''
      | AppleIntelligenceNotEnabled \<Rightarrow> ''Apple Intelligence not enabled''
      | ModelNotReady \<Rightarrow> ''AI model not ready''
      | UnknownReason \<Rightarrow> ''Unknown availability issue''
      | UnknownStatus \<Rightarrow> ''Unknown availability status'')"

definition makeOptions :: "real \<Rightarrow> int \<Rightarrow> generationOptions" where
  "makeOptions temp maxTokens =
     (if temp > 0
      then \<lparr>temperature = Some temp,
            maximumResponseTokens = (if maxTokens > 0 then Some maxTokens else None)\<rparr>
      else if maxTokens > 0
      then \<lparr>temperature = None, maximumResponseTokens = Some maxTokens\<rparr>
      else \<lparr>temperature = None, maximumResponseTokens = None\<rparr>)"

text \<open>
  \<open>decoded\<close> is the outcome of \<open>JSONDecoder().decode([ChatMessage].self, from:)\<close> on the
  request's messages: the messages, or the description of the decoding error it throws.
\<close>

definition prepareConversationContext ::
  "platform \<Rightarrow> availability \<Rightarrow> string + chatMessage list \<Rightarrow> real \<Rightarrow> int \<Rightarrow> thrown + conversationContext" where
  "prepareConversationContext P avail decoded temp maxTokens =
     (if avail \<noteq> Available
      then Inl (Conversation (IntelligenceUnavailable (unavailableReason avail)))
      else case decoded of
             Inl description \<Rightarrow> Inl (Foreign description)
           | Inr messages \<Rightarrow>
               if messages = [] then Inl (Conversation NoMessages)
               else (let lastMessage = last messages
                     in if lowercased (role lastMessage) = ''tool''
                        then Inr \<lparr>currentPrompt = [],
                                  transcriptEntries = convertMessagesToTranscript P messages,
                                  options = makeOptions temp maxTokens\<rparr>
                        else if lowercased (role lastMessage) = ''user''
                        then Inr \<lparr>currentPrompt = orEmpty (content lastMessage),
                                  transcriptEntries = convertMessagesToTranscript P (butlast messages),
                                  options = makeOptions temp maxTokens\<rparr>
                        else Inr \<lparr>currentPrompt = [],
                                  transcriptEntries = convertMessagesToTranscript P messages,
                                  options = makeOptions temp maxTokens\<rparr>))"

section \<open>Tools mode: the instructions entry\<close>

text \<open>
  \<open>handleToolsMode\<close> reads the system text from the request's messages again: the content
  of the first message whose role is \<open>system\<close> and whose content is a string.
\<close>

fun systemContent :: "chatMessage list \<Rightarrow> string" where
  "systemContent [] = []"
| "systemContent (message # rest) =
     (if lowercased (role message) = ''system''
      then (case content message of Some c \<Rightarrow> c | None \<Rightarrow> systemContent rest)
      else systemContent rest)"

text \<open>\<open>tools\<close> are the definitions of the proxy tools built from the tools JSON.\<close>

definition finalEntries :: "toolDefinition list \<Rightarrow> chatMessage list \<Rightarrow> entry list \<Rightarrow> entry list" where
  "finalEntries tools messages entries =
     (if tools \<noteq> [] \<or> systemContent messages \<noteq> []
      then Instructions
             (if systemContent messages = [] then [] else [Text (systemContent messages)])
             tools # entries
      else entries)"

section \<open>Streaming coordinator\<close>

record streamingCoordinator =
  expectedToolCount :: int
  completedToolCount :: int
  shouldStopAfterTools :: bool
  allToolsCompleted :: bool

definition initialCoordinator :: streamingCoordinator where
  "initialCoordinator =
     \<lparr>expectedToolCount = 0, completedToolCount = 0,
      shouldStopAfterTools = False, allToolsCompleted = False\<rparr>"

definition reset :: "int \<Rightarrow> bool \<Rightarrow> streamingCoordinator \<Rightarrow> streamingCoordinator" where
  "reset expectedTools stopAfterToolCalls c =
     c\<lparr>expectedToolCount := expectedTools, completedToolCount := 0,
       shouldStopAfterTools := stopAfterToolCalls, allToolsCompleted := False\<rparr>"

text \<open>The counter is a Swift \<open>Int\<close>: \<open>+= 1\<close> at \<open>Int.max\<close> traps, which is \<open>None\<close> here.\<close>

definition IntMax :: int where
  "IntMax = 2 ^ 63 - 1"

definition toolCompleted :: "streamingCoordinator \<Rightarrow> streamingCoordinator option" where
  "toolCompleted c =
     (if completedToolCount c = IntMax then None
      else Some (c\<lparr>completedToolCount := completedToolCount c + 1, allToolsCompleted := True\<rparr>))"

definition shouldTerminateStream :: "streamingCoordinator \<Rightarrow> bool" where
  "shouldTerminateStream c = (shouldStopAfterTools c \<and> completedToolCount c > 0)"

definition hasToolsToExecute :: "streamingCoordinator \<Rightarrow> bool" where
  "hasToolsToExecute c = (expectedToolCount c > 0)"

fun toolCompletedTimes :: "nat \<Rightarrow> streamingCoordinator \<Rightarrow> streamingCoordinator option" where
  "toolCompletedTimes 0 c = Some c"
| "toolCompletedTimes (Suc n) c =
     (case toolCompleted c of None \<Rightarrow> None | Some c' \<Rightarrow> toolCompletedTimes n c')"

text \<open>
  Every request reaches the coordinator through \<open>StreamingCoordinator.shared\<close>. An event
  names the request on whose behalf it happens; the code has no such identifier, and the
  event acts on the one shared instance.
\<close>

datatype coordinatorEvent =
    ResetBy nat int bool
  | ToolCompletedBy nat

fun requestOf :: "coordinatorEvent \<Rightarrow> nat" where
  "requestOf (ResetBy r expectedTools stopAfterToolCalls) = r"
| "requestOf (ToolCompletedBy r) = r"

fun isCompletion :: "coordinatorEvent \<Rightarrow> bool" where
  "isCompletion (ToolCompletedBy r) = True"
| "isCompletion (ResetBy r expectedTools stopAfterToolCalls) = False"

fun applyEvent :: "coordinatorEvent \<Rightarrow> streamingCoordinator \<Rightarrow> streamingCoordinator option" where
  "applyEvent (ResetBy r expectedTools stopAfterToolCalls) shared =
     Some (reset expectedTools stopAfterToolCalls shared)"
| "applyEvent (ToolCompletedBy r) shared = toolCompleted shared"

fun runEvents :: "coordinatorEvent list \<Rightarrow> streamingCoordinator \<Rightarrow> streamingCoordinator option" where
  "runEvents [] shared = Some shared"
| "runEvents (e # es) shared =
     (case applyEvent e shared of None \<Rightarrow> None | Some shared' \<Rightarrow> runEvents es shared')"

text \<open>What request \<open>r\<close> is told when it asks after the events \<open>es\<close>.\<close>

definition observedBy :: "nat \<Rightarrow> coordinatorEvent list \<Rightarrow> bool option" where
  "observedBy r es = map_option shouldTerminateStream (runEvents es initialCoordinator)"

section \<open>Unified generation dispatcher\<close>

datatype mode = TOOLS_MODE | STRUCTURED_MODE | BASIC_MODE

text \<open>The handler a branch of the dispatcher calls, with the arguments it passes.\<close>

datatype generation =
    HandleToolsMode conversationContext string bool bool
  | HandleStructuredMode conversationContext string
  | HandleBasicMode conversationContext
  | HandleBasicModeStream conversationContext

datatype run = Generate generation | EmitError string

text \<open>
  The outcome of the dispatcher: a string returned at once, an error sent to \<open>onChunk\<close>
  from a \<open>catch\<close> clause, or one of the three branches of the \<open>if\<close> chain, named after the
  source's comments (tools mode, structured generation mode, basic generation mode).
\<close>

datatype dispatched =
    Returned string
  | Caught string
  | Dispatched mode run

text \<open>The binding \<open>if let str = optional, !str.isEmpty\<close>.\<close>

definition nonEmpty :: "string option \<Rightarrow> string option" where
  "nonEmpty s = (case s of Some str \<Rightarrow> if str \<noteq> [] then Some str else None | None \<Rightarrow> None)"

definition appleAIGenerateUnified ::
  "platform \<Rightarrow> availability \<Rightarrow> string + chatMessage list \<Rightarrow> string option \<Rightarrow> string option \<Rightarrow>
   real \<Rightarrow> int \<Rightarrow> bool \<Rightarrow> bool \<Rightarrow> bool \<Rightarrow> dispatched" where
  "appleAIGenerateUnified P avail decoded toolsJsonString schemaJsonString temp maxTokens
       stream stopAfterToolCalls hasOnChunk =
     (if stream \<and> \<not> hasOnChunk
      then Returned ''Error: Streaming requested but no callback provided''
      else if \<not> stream
      then (case prepareConversationContext P avail decoded temp maxTokens of
              Inr context \<Rightarrow>
                (case nonEmpty toolsJsonString of
                   Some toolsStr \<Rightarrow>
                     Dispatched TOOLS_MODE
                       (Generate (HandleToolsMode context toolsStr False stopAfterToolCalls))
                 | None \<Rightarrow>
                     (case nonEmpty schemaJsonString of
                        Some schemaStr \<Rightarrow>
                          Dispatched STRUCTURED_MODE (Generate (HandleStructuredMode context schemaStr))
                      | None \<Rightarrow> Dispatched BASIC_MODE (Generate (HandleBasicMode context))))
            | Inl (Conversation (IntelligenceUnavailable reason)) \<Rightarrow>
                Returned (''Error: Apple Intelligence not available - '' @ reason)
            | Inl (Conversation (InvalidJSON reason)) \<Rightarrow> Returned (''Error: '' @ reason)
            | Inl (Conversation NoMessages) \<Rightarrow> Returned ''Error: No messages provided''
            | Inl (Foreign description) \<Rightarrow> Returned (''Error: '' @ description))
      else (case prepareConversationContext P avail decoded temp maxTokens of
              Inr context \<Rightarrow>
                (case nonEmpty toolsJsonString of
                   Some toolsStr \<Rightarrow>
                     Dispatched TOOLS_MODE
                       (Generate (HandleToolsMode context toolsStr True stopAfterToolCalls))
                 | None \<Rightarrow>
                     (case nonEmpty schemaJsonString of
                        Some schemaStr \<Rightarrow>
                          Dispatched STRUCTURED_MODE
                            (EmitError ''Structured generation does not support streaming'')
                      | None \<Rightarrow> Dispatched BASIC_MODE (Generate (HandleBasicModeStream context))))
            | Inl (Conversation (IntelligenceUnavailable reason)) \<Rightarrow>
                Caught (''Apple Intelligence not available - '' @ reason)
            | Inl (Conversation (InvalidJSON reason)) \<Rightarrow> Caught reason
            | Inl (Conversation NoMessages) \<Rightarrow> Caught ''No messages''
            | Inl (Foreign description) \<Rightarrow> Caught description))"

section \<open>Streaming loops\<close>

text \<open>
  A Swift string is a list of its \<open>Character\<close>s, which is what \<open>count\<close>, \<open>dropFirst\<close> and
  \<open>isEmpty\<close> work on. A chunk is what \<open>onChunk\<close> receives: \<open>nil\<close>, or the C string that
  \<open>strdup\<close> copies from the buffer of \<open>withCString\<close>, which ends at the first U+0000 of the
  Swift string (U+0000 is always a \<open>Character\<close> of its own, and the only one whose UTF-8 has
  a zero byte).
\<close>

type_synonym chunk = "string option"

definition NUL :: char where
  "NUL = CHR 0x00"

definition cString :: "string \<Rightarrow> string" where
  "cString s = takeWhile (\<lambda>c. c \<noteq> NUL) s"

definition ERROR_SENTINEL :: char where
  "ERROR_SENTINEL = CHR 0x02"

definition emitError :: "string \<Rightarrow> chunk" where
  "emitError message = Some (cString (ERROR_SENTINEL # message))"

fun basicStreamLoop :: "string \<Rightarrow> string list \<Rightarrow> chunk list" where
  "basicStreamLoop prev [] = []"
| "basicStreamLoop prev (cumulative # rest) =
     (let delta = drop (length prev) cumulative
      in if delta = [] then basicStreamLoop cumulative rest
         else Some (cString delta) # basicStreamLoop cumulative rest)"

text \<open>
  The response stream of the session yields the cumulative texts \<open>snapshots\<close> and then
  finishes, or throws \<open>failure\<close>. The handler returns the chunks it sent and what it threw.
\<close>

definition handleBasicModeStream :: "string list \<Rightarrow> string option \<Rightarrow> chunk list \<times> string option" where
  "handleBasicModeStream snapshots failure =
     (case failure of
        None \<Rightarrow> (basicStreamLoop [] snapshots @ [None], None)
      | Some description \<Rightarrow> (basicStreamLoop [] snapshots, Some description))"

text \<open>
  In tools mode the shared coordinator changes between two snapshots: a proxy tool
  completes, or another request resets the coordinator.
\<close>

datatype sessionEvent = Snapshot string | Coordinator coordinatorEvent

datatype loopEnd = Exhausted | Broke | Trapped

fun toolsStreamLoop ::
  "bool \<Rightarrow> string \<Rightarrow> sessionEvent list \<Rightarrow> streamingCoordinator \<Rightarrow> chunk list \<times> loopEnd" where
  "toolsStreamLoop stopAfterToolCalls prev [] shared = ([], Exhausted)"
| "toolsStreamLoop stopAfterToolCalls prev (Coordinator e # rest) shared =
     (case applyEvent e shared of
        None \<Rightarrow> ([], Trapped)
      | Some shared' \<Rightarrow> toolsStreamLoop stopAfterToolCalls prev rest shared')"
| "toolsStreamLoop stopAfterToolCalls prev (Snapshot cumulative # rest) shared =
     (if stopAfterToolCalls \<and> shouldTerminateStream shared then ([], Broke)
      else (let delta = drop (length prev) cumulative;
                (chunks, ending) = toolsStreamLoop stopAfterToolCalls cumulative rest shared
            in if delta = [] then (chunks, ending) else (Some (cString delta) # chunks, ending)))"

definition handleToolsModeStream ::
  "bool \<Rightarrow> int \<Rightarrow> sessionEvent list \<Rightarrow> string option \<Rightarrow> streamingCoordinator \<Rightarrow>
   chunk list \<times> string option" where
  "handleToolsModeStream stopAfterToolCalls toolCount events failure shared =
     (case toolsStreamLoop stopAfterToolCalls [] events (reset toolCount stopAfterToolCalls shared) of
        (chunks, Trapped) \<Rightarrow> (chunks, None)
      | (chunks, Broke) \<Rightarrow> (chunks @ [None], None)
      | (chunks, Exhausted) \<Rightarrow>
          (case failure of
             None \<Rightarrow> (chunks @ [None], None)
           | Some description \<Rightarrow> (chunks, Some description)))"

text \<open>What the streaming task sends in all: the handler's chunks, then the error it threw.\<close>

definition streamed :: "chunk list \<times> string option \<Rightarrow> chunk list" where
  "streamed handled =
     (case handled of
        (chunks, None) \<Rightarrow> chunks
      | (chunks, Some description) \<Rightarrow> chunks @ [emitError description])"

subsection \<open>The consumer of the chunks (\<open>streamResponse\<close>)\<close>

text \<open>
  \<open>handleChunk\<close> hands a value to the waiting consumer or appends it to the queue; either way
  the consumer sees the values in the order of \<open>received\<close>.
\<close>

record chunkConsumer =
  received :: "string list"
  streamDone :: bool
  streamError :: "string option"

definition handleChunk :: "string option \<Rightarrow> chunk \<Rightarrow> chunkConsumer \<Rightarrow> chunkConsumer" where
  "handleChunk err chunk st =
     (case err of
        Some e \<Rightarrow> st\<lparr>streamDone := True, streamError := Some e\<rparr>
      | None \<Rightarrow>
          (case chunk of
             None \<Rightarrow> st\<lparr>streamDone := True\<rparr>
           | Some text \<Rightarrow>
               if text = [] then st\<lparr>streamDone := True\<rparr>
               else st\<lparr>received := received st @ [text]\<rparr>))"

definition newConsumer :: chunkConsumer where
  "newConsumer = \<lparr>received = [], streamDone = False, streamError = None\<rparr>"

fun deliver :: "chunk list \<Rightarrow> chunkConsumer \<Rightarrow> chunkConsumer" where
  "deliver [] st = st"
| "deliver (chunk # chunks) st = deliver chunks (handleChunk None chunk st)"

section \<open>Tool call bridge\<close>

text \<open>
  \<open>parse\<close> is \<open>JSON.parse\<close> (\<open>Inl\<close> the text of the error it throws) and \<open>stringify\<close> is
  \<open>JSON.stringify\<close> on JSON data. A value that a handler returns or that is injected is,
  for \<open>JSON.stringify\<close>: \<open>undefined\<close>; JSON data, which it serialises; a value it throws on
  (a BigInt, a cyclic object), with the text of the error; or a function or symbol, for which
  it returns \<open>undefined\<close>. A handler returns a promise that resolves, rejects or never settles.
\<close>

record jsPlatform =
  parse :: "string \<Rightarrow> string + json"
  stringify :: "json \<Rightarrow> string"

datatype jsValue = Undefined | Value json | Unserialisable string | Function



datatype settlement = Resolves jsValue | Rejects string | NeverSettles

record ephemeralTool =
  toolName :: string
  handler :: "json \<Rightarrow> settlement"

text \<open>Tool ids are 1-based: \<open>toolMap.get(toolId)\<close> and \<open>options.tools[id - 1]\<close>.\<close>

definition lookupTool :: "ephemeralTool list \<Rightarrow> int \<Rightarrow> ephemeralTool option" where
  "lookupTool tools toolId =
     (if 1 \<le> toolId \<and> toolId \<le> int (length tools) then Some (tools ! nat (toolId - 1)) else None)"

subsection \<open>Execute locally (\<open>chatWithEphemeralTools\<close>)\<close>


subsection \<open>External orchestration (\<open>streamChatWithExternalTools\<close>)\<close>

datatype streamItem =
    TextItem string
  | ToolCallItem string string json

text \<open>
  A pending tool call is an entry of \<open>pendingToolCalls\<close>: its promise is settled by
  \<open>injectToolResult\<close> alone, which removes the entry. \<open>toolResults\<close> are the
  \<open>toolResult\<close> calls made so far.
\<close>

record externalBridge =
  pendingToolCalls :: "string \<rightharpoonup> int"
  readable :: "streamItem list"
  readableEnded :: bool
  toolResults :: "(int \<times> string option) list"
  callbackSet :: bool

definition newBridge :: externalBridge where
  "newBridge =
     \<lparr>pendingToolCalls = Map.empty, readable = [], readableEnded = False,
      toolResults = [], callbackSet = True\<rparr>"

definition push :: "streamItem \<Rightarrow> externalBridge \<Rightarrow> externalBridge" where
  "push item b = (if readableEnded b then b else b\<lparr>readable := readable b @ [item]\<rparr>)"

definition toolResult :: "int \<Rightarrow> string option \<Rightarrow> externalBridge \<Rightarrow> externalBridge" where
  "toolResult toolId resultJson b = b\<lparr>toolResults := toolResults b @ [(toolId, resultJson)]\<rparr>"

text \<open>The callback up to its \<open>await\<close>; \<open>uuid\<close> is the value of \<open>crypto.randomUUID()\<close>.\<close>

definition externalToolCallback ::
  "jsPlatform \<Rightarrow> ephemeralTool list \<Rightarrow> string option \<Rightarrow> int \<Rightarrow> string \<Rightarrow> string \<Rightarrow>
   externalBridge \<Rightarrow> externalBridge" where
  "externalToolCallback J tools err toolId argsJson uuid b =
     (case err of
        Some e \<Rightarrow> toolResult toolId (Some ''{}'') b
      | None \<Rightarrow>
          (case lookupTool tools toolId of
             None \<Rightarrow> toolResult toolId (Some ''{}'') b
           | Some tool \<Rightarrow>
               (case parse J argsJson of
                  Inl syntaxError \<Rightarrow>
                    toolResult toolId (Some (stringify J (JObject [(''error'', JString syntaxError)]))) b
                | Inr args \<Rightarrow>
                    push (ToolCallItem (''tool-call-'' @ uuid) (toolName tool) args)
                      (b\<lparr>pendingToolCalls := (pendingToolCalls b)((''tool-call-'' @ uuid) \<mapsto> toolId)\<rparr>))))"


text \<open>The callback given to \<open>generateResponseWithToolsStream\<close>: error, end of stream or text.\<close>

definition onNativeChunk :: "string option \<Rightarrow> chunk \<Rightarrow> externalBridge \<Rightarrow> externalBridge" where
  "onNativeChunk err chunk b =
     (case err of
        Some e \<Rightarrow> b\<lparr>readableEnded := True, callbackSet := False\<rparr>
      | None \<Rightarrow>
          (case chunk of
             None \<Rightarrow> b\<lparr>readableEnded := True, callbackSet := False\<rparr>
           | Some text \<Rightarrow>
               if text = [] then b\<lparr>readableEnded := True, callbackSet := False\<rparr>
               else push (TextItem text) b))"

section \<open>Notions used in the statements\<close>

definition isRole :: "string \<Rightarrow> chatMessage \<Rightarrow> bool" where
  "isRole r message = (lowercased (role message) = r)"

definition entryId :: "entry \<Rightarrow> string option" where
  "entryId e = (case e of ToolOutputEntry output \<Rightarrow> Some (outputId output) | _ \<Rightarrow> None)"

definition isToolOutput :: "entry \<Rightarrow> bool" where
  "isToolOutput e = (entryId e \<noteq> None)"

definition isInstructions :: "entry \<Rightarrow> bool" where
  "isInstructions e = (case e of Instructions segs tools \<Rightarrow> True | _ \<Rightarrow> False)"

definition outputIds :: "entry list \<Rightarrow> string list" where
  "outputIds es = List.map_filter entryId es"

text \<open>The tool-output records a conversation carries, in order: what \<open>createToolOutputEntry\<close>
  reads from the messages that the builder treats as tool messages.\<close>

definition toolRecords :: "platform \<Rightarrow> chatMessage list \<Rightarrow> entry list" where
  "toolRecords P messages =
     concat (map (createToolOutputEntry P) (filter (isRole ''tool'') messages))"

text \<open>The one entry of a message that is neither a system nor a tool message.\<close>

definition plainEntry :: "platform \<Rightarrow> chatMessage \<Rightarrow> entry" where
  "plainEntry P message =
     (if isRole ''assistant'' message then createAssistantEntry P message
      else Prompt (createPrompt message))"

text \<open>
  The request carries a non-empty tools list: its tools JSON is there and is the text of an
  array of at least one tool.
\<close>

definition carriesTools :: "platform \<Rightarrow> string option \<Rightarrow> bool" where
  "carriesTools P toolsJsonString =
     (case Option.bind (Option.bind toolsJsonString (jsonObject P)) asDictArray of
        Some (tool # tools) \<Rightarrow> True
      | _ \<Rightarrow> False)"

text \<open>
  The mode of a request as the specification words it: the tools mode for a request that
  carries a non-empty tools list, else the structured mode for one with a schema, else the
  basic mode.
\<close>

definition modeByPriority :: "platform \<Rightarrow> string option \<Rightarrow> string option \<Rightarrow> mode" where
  "modeByPriority P toolsJsonString schemaJsonString =
     (if carriesTools P toolsJsonString then TOOLS_MODE
      else if nonEmpty schemaJsonString \<noteq> None then STRUCTURED_MODE
      else BASIC_MODE)"

definition isData :: "chunk \<Rightarrow> bool" where
  "isData chunk = (case chunk of Some text \<Rightarrow> text \<noteq> [] | None \<Rightarrow> False)"

text \<open>No delta of the cumulative texts, each taken after the text before it, begins with U+0000.\<close>

definition startsWithNUL :: "string \<Rightarrow> bool" where
  "startsWithNUL s = (case s of [] \<Rightarrow> False | c # cs \<Rightarrow> c = NUL)"

fun cleanDeltas :: "string \<Rightarrow> string list \<Rightarrow> bool" where
  "cleanDeltas prev [] = True"
| "cleanDeltas prev (cumulative # rest) =
     (\<not> startsWithNUL (drop (length prev) cumulative) \<and> cleanDeltas cumulative rest)"

fun snapshotsOf :: "sessionEvent list \<Rightarrow> string list" where
  "snapshotsOf [] = []"
| "snapshotsOf (Snapshot cumulative # rest) = cumulative # snapshotsOf rest"
| "snapshotsOf (Coordinator e # rest) = snapshotsOf rest"

text \<open>The mode a request was dispatched to, and the handler that was run for it, if any.\<close>

definition dispatchedMode :: "dispatched \<Rightarrow> mode option" where
  "dispatchedMode d = (case d of Dispatched m r \<Rightarrow> Some m | _ \<Rightarrow> None)"


section \<open>Example inputs\<close>

function decimal :: "nat \<Rightarrow> string" where
  "decimal n =
     (if n < 10 then [char_of (48 + n)] else decimal (n div 10) @ [char_of (48 + n mod 10)])"
  by pat_completeness auto
termination
  by (relation "measure id") auto

fun serialize :: "json \<Rightarrow> string" where
  "serialize JNull = ''null''"
| "serialize (JBool b) = (if b then ''true'' else ''false'')"
| "serialize (JNumber n) = (if n < 0 then ''-'' @ decimal (nat (- n)) else decimal (nat n))"
| "serialize (JString s) = CHR 0x22 # s @ [CHR 0x22]"
| "serialize (JArray xs) = ''['' @ joined '','' (map serialize xs) @ '']''"
| "serialize (JObject kv) =
     ''{'' @ joined '','' (map (\<lambda>(k, v). CHR 0x22 # k @ [CHR 0x22] @ '':'' @ serialize v) kv) @ ''}''"

definition sumRecord :: json where
  "sumRecord =
     JObject [(''id'', JString ''call_1''), (''toolName'', JString ''add''),
              (''segments'', JArray [JObject [(''type'', JString ''text''), (''text'', JString ''5'')]])]"

definition sumDocument :: string where
  \<open>sumDocument =
     ''{"tool_calls":[{"id":"call_1","toolName":"add","segments":[{"type":"text","text":"5"}]}]}''\<close>

definition twiceDocument :: string where
  \<open>twiceDocument =
     ''{"tool_calls":[{"id":"call_2","toolName":"mul","segments":[]},{"id":"call_2","toolName":"mul","segments":[]}]}''\<close>

text \<open>A platform that reads the two documents above, two tools documents and nothing else.\<close>

definition examplePlatform :: platform where
  \<open>examplePlatform =
     \<lparr>jsonObject =
        (\<lambda>s. if s = sumDocument then Some (JObject [(''tool_calls'', JArray [sumRecord])])
             else if s = twiceDocument
             then Some (JObject [(''tool_calls'',
                    JArray [JObject [(''id'', JString ''call_2''), (''toolName'', JString ''mul''),
                                     (''segments'', JArray [])],
                            JObject [(''id'', JString ''call_2''), (''toolName'', JString ''mul''),
                                     (''segments'', JArray [])]])])
             else if s = ''[]'' then Some (JArray [])
             else if s = ''[{"id":1,"name":"add"}]''
             then Some (JArray [JObject [(''id'', JNumber 1), (''name'', JString ''add'')]])
             else None),
      jsonText = (\<lambda>j. Some (serialize j)),
      interpolate = serialize\<rparr>\<close>

definition message :: "string \<Rightarrow> string \<Rightarrow> chatMessage" where
  "message r c = \<lparr>role = r, content = Some c, name = None, tool_call_id = None, tool_calls = None\<rparr>"

text \<open>A JavaScript platform that parses one arguments document.\<close>

definition exampleJS :: jsPlatform where
  \<open>exampleJS =
     \<lparr>parse = (\<lambda>s. if s = ''{"a":2,"b":3}'' then Inr (JObject [(''a'', JNumber 2), (''b'', JNumber 3)])
                   else Inl ''SyntaxError: Unexpected token''),
      stringify = serialize\<rparr>\<close>

text \<open>Tools whose handlers return a number, fail, return nothing and return a BigInt.\<close>

definition addTool :: ephemeralTool where
  "addTool = \<lparr>toolName = ''add'', handler = (\<lambda>args. Resolves (Value (JNumber 5)))\<rparr>"




section \<open>Properties of the transcript builder\<close>

lemma outputIds_simps [simp]:
  "outputIds [] = []"
  "outputIds (ToolOutputEntry output # es) = outputId output # outputIds es"
  "entryId e = None \<Longrightarrow> outputIds (e # es) = outputIds es"
  by (simp_all add: outputIds_def entryId_def List.map_filter_simps)

lemma outputIds_append [simp]: "outputIds (a @ b) = outputIds a @ outputIds b"
  by (simp add: outputIds_def List.map_filter_def)

lemma entryId_ToolOutputEntry [simp]: "entryId (ToolOutputEntry output) = Some (outputId output)"
  by (simp add: entryId_def)

lemma entryId_other [simp]:
  "entryId (Instructions s t) = None" "entryId (Prompt s) = None"
  "entryId (ToolCalls c) = None" "entryId (Response a s) = None"
  by (simp_all add: entryId_def)

lemma entryId_createAssistantEntry [simp]: "entryId (createAssistantEntry P m) = None"
  by (simp add: createAssistantEntry_def legacyAssistantEntry_def createResponse_def
      split: option.splits)

lemma entryId_plainEntry [simp]: "entryId (plainEntry P m) = None"
  by (simp add: plainEntry_def)

lemma isToolOutput_simps [simp]:
  "isToolOutput (ToolOutputEntry output)" "\<not> isToolOutput (Prompt s)"
  "\<not> isToolOutput (createAssistantEntry P m)" "\<not> isToolOutput (plainEntry P m)"
  by (simp_all add: isToolOutput_def)

lemma toolCallRecord_isToolOutput: "toolCallRecord d = Some e \<Longrightarrow> isToolOutput e"
  by (auto simp: toolCallRecord_def isToolOutput_def split: option.splits)

lemma createToolOutputEntry_isToolOutput: "list_all isToolOutput (createToolOutputEntry P m)"
  by (auto simp: createToolOutputEntry_def list_all_iff List.map_filter_def
      dest: toolCallRecord_isToolOutput split: option.splits)

lemma filterSeen_append:
  "filterSeen (a @ b) seen =
     (fst (filterSeen a seen) @ fst (filterSeen b (snd (filterSeen a seen))),
      snd (filterSeen b (snd (filterSeen a seen))))"
  by (induction a seen rule: filterSeen.induct) (simp_all add: split_beta)

lemma filterSeen_snd: "snd (filterSeen es seen) = seen \<union> set (outputIds es)"
  by (induction es seen rule: filterSeen.induct) (auto simp: split_beta)

lemma filterSeen_isToolOutput:
  "list_all isToolOutput es \<Longrightarrow> list_all isToolOutput (fst (filterSeen es seen))"
  by (induction es seen rule: filterSeen.induct) (auto simp: split_beta)

lemma filterSeen_subset: "set (fst (filterSeen es seen)) \<subseteq> set es"
  by (induction es seen rule: filterSeen.induct) (auto simp: split_beta)

lemma filterSeen_ids_set:
  "set (outputIds (fst (filterSeen es seen))) = set (outputIds es) - seen"
  by (induction es seen rule: filterSeen.induct) (auto simp: split_beta)

lemma filterSeen_ids_distinct: "distinct (outputIds (fst (filterSeen es seen)))"
  by (induction es seen rule: filterSeen.induct) (auto simp: split_beta filterSeen_ids_set)

lemma filterSeen_find:
  "find (\<lambda>e. entryId e = Some i) (fst (filterSeen es seen)) =
     (if i \<in> seen then None else find (\<lambda>e. entryId e = Some i) es)"
  by (induction es seen rule: filterSeen.induct) (auto simp: split_beta)

lemma convertLoop_append: "convertLoop P ms entries seen = entries @ convertLoop P ms [] seen"
proof (induction ms arbitrary: entries seen)
  case Nil
  show ?case by simp
next
  case (Cons m ms)
  have step: "convertLoop P ms (entries @ xs) s = entries @ convertLoop P ms xs s" for xs s
    using Cons.IH[of "entries @ xs" s] Cons.IH[of xs s] by simp
  show ?case
    by (simp add: split_beta step del: append_assoc)
qed

lemma convertLoop_tool_outputs:
  "filter isToolOutput (convertLoop P ms [] seen) = fst (filterSeen (toolRecords P ms) seen)"
proof (induction ms arbitrary: seen)
  case Nil
  show ?case by (simp add: toolRecords_def)
next
  case (Cons m ms)
  have tl: "filter isToolOutput (convertLoop P ms xs s) =
      filter isToolOutput xs @ fst (filterSeen (toolRecords P ms) s)" for xs s
    using convertLoop_append[of P ms xs s] Cons.IH[of s] by simp
  have keep: "filter isToolOutput (fst (filterSeen (createToolOutputEntry P m) seen)) =
      fst (filterSeen (createToolOutputEntry P m) seen)"
    using filterSeen_isToolOutput[OF createToolOutputEntry_isToolOutput, of P m seen]
    by (simp add: list_all_iff)
  have recs: "toolRecords P (m # ms) =
      (if isRole ''tool'' m then createToolOutputEntry P m else []) @ toolRecords P ms"
    by (simp add: toolRecords_def)
  show ?case
    by (simp add: split_beta tl keep recs filterSeen_append isRole_def)
qed

lemma convertLoop_plain:
  "filter (\<lambda>e. \<not> isToolOutput e) (convertLoop P ms [] seen) =
     map (plainEntry P) (filter (\<lambda>m. \<not> isRole ''tool'' m) ms)"
proof (induction ms arbitrary: seen)
  case Nil
  show ?case by simp
next
  case (Cons m ms)
  have tl: "filter (\<lambda>e. \<not> isToolOutput e) (convertLoop P ms xs s) =
      filter (\<lambda>e. \<not> isToolOutput e) xs @ map (plainEntry P) (filter (\<lambda>m. \<not> isRole ''tool'' m) ms)" for xs s
    using convertLoop_append[of P ms xs s] Cons.IH[of s] by simp
  have drop: "filter (\<lambda>e. \<not> isToolOutput e) (fst (filterSeen (createToolOutputEntry P m) seen)) = []"
    using filterSeen_isToolOutput[OF createToolOutputEntry_isToolOutput, of P m seen]
    by (simp add: list_all_iff)
  show ?case
    by (simp add: split_beta tl drop isRole_def plainEntry_def)
qed


lemma toolRecords_nonSystem:
  "toolRecords P (filter (\<lambda>m. lowercased (role m) \<noteq> ''system'') messages) = toolRecords P messages"
proof -
  have "filter (isRole ''tool'') (filter (\<lambda>m. lowercased (role m) \<noteq> ''system'') messages) =
        filter (isRole ''tool'') messages"
    by (induction messages) (auto simp: isRole_def)
  then show ?thesis by (simp add: toolRecords_def)
qed

lemma outputIds_filter: "outputIds (filter isToolOutput es) = outputIds es"
  by (induction es) (auto simp: outputIds_def isToolOutput_def List.map_filter_simps split: option.splits)

lemma find_filter_isToolOutput:
  "find (\<lambda>e. entryId e = Some i) (filter isToolOutput es) = find (\<lambda>e. entryId e = Some i) es"
  by (induction es) (auto simp: isToolOutput_def)

lemma transcript_tool_outputs:
  "filter isToolOutput (convertMessagesToTranscript P messages) =
     fst (filterSeen (toolRecords P messages) {})"
  by (simp add: convertMessagesToTranscript_def convertLoop_tool_outputs toolRecords_nonSystem)

lemma transcript_plain:
  "filter (\<lambda>e. \<not> isToolOutput e) (convertMessagesToTranscript P messages) =
     map (plainEntry P) (filter (\<lambda>m. \<not> isRole ''system'' m \<and> \<not> isRole ''tool'' m) messages)"
  by (simp add: convertMessagesToTranscript_def convertLoop_plain isRole_def)

lemma count_list_distinct: "distinct xs \<Longrightarrow> count_list xs x = (if x \<in> set xs then 1 else 0)"
  by (induction xs) auto

text \<open>
  C8. Within one build of the transcript, every id carried by the tool-output records of the
  conversation (in one tool message or in several) is the id of exactly one tool-output entry,
  an id that no record carries is the id of none, and the entry kept for an id is the first
  record with that id: every later one is dropped.
\<close>

theorem tool_output_dedup:
  "count_list (outputIds (convertMessagesToTranscript P messages)) i =
     (if i \<in> set (outputIds (toolRecords P messages)) then 1 else 0)
   \<and> find (\<lambda>e. entryId e = Some i) (convertMessagesToTranscript P messages) =
     find (\<lambda>e. entryId e = Some i) (toolRecords P messages)"
proof -
  let ?T = "convertMessagesToTranscript P messages"
  have ids: "outputIds ?T = outputIds (fst (filterSeen (toolRecords P messages) {}))"
    using transcript_tool_outputs[of P messages] outputIds_filter[of ?T] by simp
  have "distinct (outputIds ?T)"
    by (simp add: ids filterSeen_ids_distinct)
  moreover have "set (outputIds ?T) = set (outputIds (toolRecords P messages))"
    by (simp add: ids filterSeen_ids_set)
  ultimately have count: "count_list (outputIds ?T) i =
      (if i \<in> set (outputIds (toolRecords P messages)) then 1 else 0)"
    by (simp add: count_list_distinct)
  have "find (\<lambda>e. entryId e = Some i) ?T =
        find (\<lambda>e. entryId e = Some i) (fst (filterSeen (toolRecords P messages) {}))"
    using find_filter_isToolOutput[of i ?T] transcript_tool_outputs[of P messages] by simp
  then have "find (\<lambda>e. entryId e = Some i) ?T = find (\<lambda>e. entryId e = Some i) (toolRecords P messages)"
    by (simp add: filterSeen_find)
  with count show ?thesis by simp
qed

theorem tool_output_dedup_witness:
  "count_list (outputIds (convertMessagesToTranscript examplePlatform
       [message ''tool'' sumDocument, message ''user'' ''and twice?'', message ''tool'' sumDocument,
        message ''tool'' twiceDocument])) ''call_1'' = 1
   \<and> count_list (outputIds (convertMessagesToTranscript examplePlatform
       [message ''tool'' sumDocument, message ''user'' ''and twice?'', message ''tool'' sumDocument,
        message ''tool'' twiceDocument])) ''call_2'' = 1
   \<and> outputIds (toolRecords examplePlatform
       [message ''tool'' sumDocument, message ''user'' ''and twice?'', message ''tool'' sumDocument,
        message ''tool'' twiceDocument]) = [''call_1'', ''call_1'', ''call_2'', ''call_2'']"
proof -
  let ?ms = "[message ''tool'' sumDocument, message ''user'' ''and twice?'',
              message ''tool'' sumDocument, message ''tool'' twiceDocument]"
  have recs: "outputIds (toolRecords examplePlatform ?ms) = [''call_1'', ''call_1'', ''call_2'', ''call_2'']"
    by code_simp
  show ?thesis
    using tool_output_dedup[of examplePlatform ?ms "''call_1''"]
          tool_output_dedup[of examplePlatform ?ms "''call_2''"] recs
    by simp
qed

lemma isInstructions_plainEntry: "\<not> isInstructions (plainEntry P m)"
  by (simp add: plainEntry_def isInstructions_def createAssistantEntry_def legacyAssistantEntry_def
      createResponse_def split: option.splits)

lemma isToolOutput_not_instructions: "isToolOutput e \<Longrightarrow> \<not> isInstructions e"
  by (cases e) (simp_all add: isToolOutput_def isInstructions_def entryId_def)

lemma transcript_no_instructions: "filter isInstructions (convertMessagesToTranscript P messages) = []"
proof -
  have "\<not> isInstructions e" if "e \<in> set (convertMessagesToTranscript P messages)" for e
  proof (cases "isToolOutput e")
    case True
    then show ?thesis by (rule isToolOutput_not_instructions)
  next
    case False
    with that have "e \<in> set (filter (\<lambda>e. \<not> isToolOutput e) (convertMessagesToTranscript P messages))"
      by simp
    then obtain m where "e = plainEntry P m"
      unfolding transcript_plain by auto
    then show ?thesis by (simp add: isInstructions_plainEntry)
  qed
  then show ?thesis by (simp add: filter_empty_conv)
qed

text \<open>
  C1 (amended). For every non-empty message list the context is built. If the role of the
  last message is \<open>user\<close>, the prompt is that message's content (empty when it has none) and
  the transcript is built from the list without it. Otherwise the prompt is empty and the
  transcript is built from the whole list. Of a list, the entries of the transcript other
  than tool outputs are, in order, the entries of the messages that are neither system nor
  tool messages, one for each, so that a system message has no entry; its tool outputs are
  among the records of the tool messages, with every id of a record present.
\<close>

theorem trailing_prompt_extraction:
  assumes "messages \<noteq> []"
  shows "prepareConversationContext P Available (Inr messages) temp maxTokens =
       Inr \<lparr>currentPrompt =
              (if isRole ''user'' (last messages) then orEmpty (content (last messages)) else []),
            transcriptEntries =
              convertMessagesToTranscript P
                (if isRole ''user'' (last messages) then butlast messages else messages),
            options = makeOptions temp maxTokens\<rparr>
     \<and> filter (\<lambda>e. \<not> isToolOutput e) (convertMessagesToTranscript P messages) =
         map (plainEntry P)
           (filter (\<lambda>m. \<not> isRole ''system'' m \<and> \<not> isRole ''tool'' m) messages)
     \<and> set (filter isToolOutput (convertMessagesToTranscript P messages)) \<subseteq>
         set (toolRecords P messages)
     \<and> set (outputIds (convertMessagesToTranscript P messages)) =
         set (outputIds (toolRecords P messages))"
proof -
  have ids: "set (outputIds (convertMessagesToTranscript P messages)) =
      set (outputIds (toolRecords P messages))"
  proof -
    have "outputIds (convertMessagesToTranscript P messages) =
        outputIds (fst (filterSeen (toolRecords P messages) {}))"
      using outputIds_filter[of "convertMessagesToTranscript P messages"]
      by (simp add: transcript_tool_outputs)
    then show ?thesis
      by (simp add: filterSeen_ids_set)
  qed
  have sub: "set (filter isToolOutput (convertMessagesToTranscript P messages)) \<subseteq>
      set (toolRecords P messages)"
    unfolding transcript_tool_outputs by (rule filterSeen_subset)
  show ?thesis
  proof (cases "isRole ''user'' (last messages)")
    case True
    then have "lowercased (role (last messages)) \<noteq> ''tool''"
      by (simp add: isRole_def)
    with True assms ids sub show ?thesis
      by (simp add: prepareConversationContext_def isRole_def Let_def
          transcript_plain[unfolded isRole_def])
  next
    case False
    with assms ids sub show ?thesis
      by (simp add: prepareConversationContext_def isRole_def Let_def
          transcript_plain[unfolded isRole_def])
  qed
qed

theorem trailing_prompt_extraction_witness:
  "prepareConversationContext examplePlatform Available
       (Inr [message ''system'' ''Be brief'', message ''User'' ''2+2?'']) 0 0 =
     Inr \<lparr>currentPrompt = ''2+2?'',
          transcriptEntries = convertMessagesToTranscript examplePlatform [message ''system'' ''Be brief''],
          options = makeOptions 0 0\<rparr>
   \<and> prepareConversationContext examplePlatform Available
       (Inr [message ''user'' ''2+2?'', message ''assistant'' ''4'']) 0 0 =
     Inr \<lparr>currentPrompt = [],
          transcriptEntries = convertMessagesToTranscript examplePlatform
             [message ''user'' ''2+2?'', message ''assistant'' ''4''],
          options = makeOptions 0 0\<rparr>"
proof -
  have a: "[message ''system'' ''Be brief'', message ''User'' ''2+2?''] \<noteq> []" by simp
  have b: "[message ''user'' ''2+2?'', message ''assistant'' ''4''] \<noteq> []" by simp
  have r1: "isRole ''user'' (message ''User'' ''2+2?'')"
    by (simp add: isRole_def message_def lowercased_def lowercasedChar_def)
  have r2: "\<not> isRole ''user'' (message ''assistant'' ''4'')"
    by (simp add: isRole_def message_def lowercased_def lowercasedChar_def)
  have c: "orEmpty (content (message ''User'' ''2+2?'')) = ''2+2?''"
    by (simp add: message_def orEmpty_def)
  show ?thesis
    using trailing_prompt_extraction[OF a, of examplePlatform 0 0]
          trailing_prompt_extraction[OF b, of examplePlatform 0 0]
    by (simp add: r1 r2 c)
qed

theorem all_messages_in_transcript_counterexample:
  "prepareConversationContext examplePlatform Available
     (Inr [message ''system'' ''Be brief'', message ''assistant'' ''Hello'']) 0 0 =
   Inr \<lparr>currentPrompt = [], transcriptEntries = [Response [] [Text ''Hello'']],
        options = \<lparr>temperature = None, maximumResponseTokens = None\<rparr>\<rparr>"
proof -
  have "convertMessagesToTranscript examplePlatform
      [message ''system'' ''Be brief'', message ''assistant'' ''Hello''] = [Response [] [Text ''Hello'']]"
    by code_simp
  moreover have "lowercased (role (message ''assistant'' ''Hello'')) = ''assistant''"
    by (simp add: message_def lowercased_def lowercasedChar_def)
  ultimately show ?thesis
    by (simp add: prepareConversationContext_def makeOptions_def)
qed

lemma systemContent_find:
  "systemContent messages =
     orEmpty (Option.bind (find (\<lambda>m. isRole ''system'' m \<and> content m \<noteq> None) messages) content)"
  by (induction messages) (auto simp: isRole_def orEmpty_def)

text \<open>
  C7 (amended). The transcript builder emits no entry for a system message: the system
  messages are removed before the conversion, so the transcript is that of the conversation
  without them and holds no instructions entry. In tools mode the dispatcher builds its
  entries from the transcript by putting in front of it, unchanged, one instructions entry
  when there are tools or a system text, and nothing otherwise; that entry is then the only
  instructions entry, it carries the tool definitions and, as its only segment, the system
  text, which is the content of the first system message that has one.
\<close>

theorem system_messages_skipped:
  "convertMessagesToTranscript P messages =
     convertMessagesToTranscript P (filter (\<lambda>m. \<not> isRole ''system'' m) messages)
   \<and> filter isInstructions (convertMessagesToTranscript P messages) = []
   \<and> finalEntries tools messages (convertMessagesToTranscript P previous) =
       (if tools \<noteq> [] \<or> systemContent messages \<noteq> []
        then [Instructions
                (if systemContent messages = [] then [] else [Text (systemContent messages)]) tools]
        else []) @ convertMessagesToTranscript P previous
   \<and> filter isInstructions (finalEntries tools messages (convertMessagesToTranscript P previous)) =
       (if tools \<noteq> [] \<or> systemContent messages \<noteq> []
        then [Instructions
                (if systemContent messages = [] then [] else [Text (systemContent messages)]) tools]
        else [])
   \<and> systemContent messages =
       orEmpty (Option.bind (find (\<lambda>m. isRole ''system'' m \<and> content m \<noteq> None) messages) content)"
proof -
  have skip: "convertMessagesToTranscript P messages =
      convertMessagesToTranscript P (filter (\<lambda>m. \<not> isRole ''system'' m) messages)"
    by (simp add: convertMessagesToTranscript_def isRole_def)
  have front: "finalEntries tools messages (convertMessagesToTranscript P previous) =
      (if tools \<noteq> [] \<or> systemContent messages \<noteq> []
       then [Instructions
               (if systemContent messages = [] then [] else [Text (systemContent messages)]) tools]
       else []) @ convertMessagesToTranscript P previous"
    by (simp add: finalEntries_def)
  have only: "filter isInstructions (finalEntries tools messages (convertMessagesToTranscript P previous)) =
      (if tools \<noteq> [] \<or> systemContent messages \<noteq> []
       then [Instructions
               (if systemContent messages = [] then [] else [Text (systemContent messages)]) tools]
       else [])"
    unfolding front by (simp add: transcript_no_instructions isInstructions_def)
  show ?thesis
    using skip front only transcript_no_instructions[of P messages] systemContent_find[of messages]
    by blast
qed

theorem system_messages_skipped_witness:
  "convertMessagesToTranscript examplePlatform
       [message ''system'' ''Be brief'', message ''user'' ''Hi'', message ''system'' ''Be kind''] =
     convertMessagesToTranscript examplePlatform [message ''user'' ''Hi'']
   \<and> finalEntries [ToolDefinition ''add'' ''adds'' (JObject [])]
          [message ''system'' ''Be brief'', message ''user'' ''Hi'', message ''system'' ''Be kind'']
          (convertMessagesToTranscript examplePlatform
             [message ''system'' ''Be brief'', message ''user'' ''Hi'']) =
     [Instructions [Text ''Be brief''] [ToolDefinition ''add'' ''adds'' (JObject [])],
      Prompt [Text ''Hi'']]
   \<and> filter isInstructions
       (finalEntries [ToolDefinition ''add'' ''adds'' (JObject [])]
          [message ''system'' ''Be brief'', message ''user'' ''Hi'', message ''system'' ''Be kind'']
          (convertMessagesToTranscript examplePlatform
             [message ''system'' ''Be brief'', message ''user'' ''Hi''])) =
     [Instructions [Text ''Be brief''] [ToolDefinition ''add'' ''adds'' (JObject [])]]"
proof -
  have f: "filter (\<lambda>m. \<not> isRole ''system'' m)
      [message ''system'' ''Be brief'', message ''user'' ''Hi'', message ''system'' ''Be kind''] =
      [message ''user'' ''Hi'']"
    by (simp add: isRole_def message_def lowercased_def lowercasedChar_def)
  have s: "systemContent
      [message ''system'' ''Be brief'', message ''user'' ''Hi'', message ''system'' ''Be kind''] =
      ''Be brief''"
    by (simp add: message_def lowercased_def lowercasedChar_def)
  have t: "convertMessagesToTranscript examplePlatform
      [message ''system'' ''Be brief'', message ''user'' ''Hi''] = [Prompt [Text ''Hi'']]"
    by code_simp
  note inst = system_messages_skipped[of examplePlatform
        "[message ''system'' ''Be brief'', message ''user'' ''Hi'', message ''system'' ''Be kind'']"
        "[ToolDefinition ''add'' ''adds'' (JObject [])]"
        "[message ''system'' ''Be brief'', message ''user'' ''Hi'']", unfolded f s t]
  from inst have 1: "convertMessagesToTranscript examplePlatform
       [message ''system'' ''Be brief'', message ''user'' ''Hi'', message ''system'' ''Be kind''] =
     convertMessagesToTranscript examplePlatform [message ''user'' ''Hi'']"
    by blast
  from inst have 2: "finalEntries [ToolDefinition ''add'' ''adds'' (JObject [])]
          [message ''system'' ''Be brief'', message ''user'' ''Hi'', message ''system'' ''Be kind'']
          [Prompt [Text ''Hi'']] =
     [Instructions [Text ''Be brief''] [ToolDefinition ''add'' ''adds'' (JObject [])],
      Prompt [Text ''Hi'']]"
    by simp
  from inst have 3: "filter isInstructions
       (finalEntries [ToolDefinition ''add'' ''adds'' (JObject [])]
          [message ''system'' ''Be brief'', message ''user'' ''Hi'', message ''system'' ''Be kind'']
          [Prompt [Text ''Hi'']]) =
     [Instructions [Text ''Be brief''] [ToolDefinition ''add'' ''adds'' (JObject [])]]"
    by (simp add: isInstructions_def)
  show ?thesis
    unfolding t using 1 2 3 by blast
qed

theorem system_message_instructions_counterexample:
  "convertMessagesToTranscript examplePlatform
     [message ''system'' ''Be brief'', message ''user'' ''Hi''] = [Prompt [Text ''Hi'']]
   \<and> createInstructions (message ''system'' ''Be brief'') = Instructions [Text ''Be brief''] []"
  by code_simp

section \<open>Properties of the coordinator and of the dispatcher\<close>

lemma toolCompletedTimes_counts:
  "completedToolCount c + int n \<le> IntMax \<Longrightarrow>
   toolCompletedTimes n c =
     Some (c\<lparr>completedToolCount := completedToolCount c + int n,
            allToolsCompleted := (allToolsCompleted c \<or> 0 < n)\<rparr>)"
proof (induction n arbitrary: c)
  case 0
  show ?case by simp
next
  case (Suc n)
  from Suc.prems have ne: "completedToolCount c \<noteq> IntMax" by simp
  let ?c = "c\<lparr>completedToolCount := completedToolCount c + 1, allToolsCompleted := True\<rparr>"
  have step: "toolCompleted c = Some ?c"
    using ne by (simp add: toolCompleted_def)
  have "completedToolCount ?c + int n \<le> IntMax"
    using Suc.prems by simp
  from Suc.IH[OF this] show ?case
    by (simp add: step add.assoc)
qed

lemma toolCompletedTimes_traps:
  "completedToolCount c \<le> IntMax \<Longrightarrow> IntMax < completedToolCount c + int n \<Longrightarrow>
   toolCompletedTimes n c = None"
proof (induction n arbitrary: c)
  case 0
  then show ?case by simp
next
  case (Suc n)
  show ?case
  proof (cases "completedToolCount c = IntMax")
    case True
    then show ?thesis by (simp add: toolCompleted_def)
  next
    case False
    let ?c = "c\<lparr>completedToolCount := completedToolCount c + 1, allToolsCompleted := True\<rparr>"
    have step: "toolCompleted c = Some ?c"
      using False by (simp add: toolCompleted_def)
    have "completedToolCount ?c \<le> IntMax" "IntMax < completedToolCount ?c + int n"
      using Suc.prems False by simp_all
    from Suc.IH[OF this] show ?thesis
      by (simp add: step)
  qed
qed

lemma IntMax_nonneg: "0 \<le> IntMax"
  by (simp add: IntMax_def)

lemma after_reset:
  "int n \<le> IntMax \<Longrightarrow>
   map_option shouldTerminateStream
     (toolCompletedTimes n (reset expectedTools stopAfterToolCalls c)) =
   Some (stopAfterToolCalls \<and> 0 < n)"
  using toolCompletedTimes_counts[of "reset expectedTools stopAfterToolCalls c" n]
  by (simp add: reset_def shouldTerminateStream_def)

text \<open>
  C3. After \<open>reset(expectedTools, stopAfterToolCalls)\<close> and \<open>n\<close> tool-completed
  notifications, \<open>shouldTerminateStream\<close> is true exactly when \<open>stopAfterToolCalls\<close> is true
  and \<open>n\<close> is at least one, whatever \<open>expectedTools\<close> is; once true after \<open>m\<close> notifications
  it is true after any larger number \<open>n\<close> of them. This holds for every number of
  notifications the counter can hold; one more makes the increment trap, so that no
  answer is given at all.
\<close>

theorem early_termination_policy:
  "(int n \<le> IntMax \<longrightarrow>
      map_option shouldTerminateStream
        (toolCompletedTimes n (reset expectedTools stopAfterToolCalls c)) =
      Some (stopAfterToolCalls \<and> 1 \<le> n))
   \<and> (int n \<le> IntMax \<and> m \<le> n \<and>
      map_option shouldTerminateStream
        (toolCompletedTimes m (reset expectedTools stopAfterToolCalls c)) = Some True \<longrightarrow>
      map_option shouldTerminateStream
        (toolCompletedTimes n (reset expectedTools stopAfterToolCalls c)) = Some True)
   \<and> (IntMax < int n \<longrightarrow>
      toolCompletedTimes n (reset expectedTools stopAfterToolCalls c) = None)"
proof (intro conjI impI)
  assume "int n \<le> IntMax"
  then show "map_option shouldTerminateStream
      (toolCompletedTimes n (reset expectedTools stopAfterToolCalls c)) =
      Some (stopAfterToolCalls \<and> 1 \<le> n)"
    by (simp add: after_reset Suc_le_eq)
next
  assume a: "int n \<le> IntMax \<and> m \<le> n \<and>
      map_option shouldTerminateStream
        (toolCompletedTimes m (reset expectedTools stopAfterToolCalls c)) = Some True"
  then have "int m \<le> IntMax" by simp
  with a have "stopAfterToolCalls \<and> 0 < m"
    by (simp add: after_reset)
  with a show "map_option shouldTerminateStream
      (toolCompletedTimes n (reset expectedTools stopAfterToolCalls c)) = Some True"
    by (simp add: after_reset)
next
  assume "IntMax < int n"
  then show "toolCompletedTimes n (reset expectedTools stopAfterToolCalls c) = None"
    using toolCompletedTimes_traps[of "reset expectedTools stopAfterToolCalls c" n] IntMax_nonneg
    by (simp add: reset_def)
qed

theorem early_termination_policy_witness:
  "map_option shouldTerminateStream (toolCompletedTimes 0 (reset 3 True initialCoordinator)) = Some False
   \<and> map_option shouldTerminateStream (toolCompletedTimes 1 (reset 3 True initialCoordinator)) = Some True
   \<and> map_option shouldTerminateStream (toolCompletedTimes 2 (reset 3 True initialCoordinator)) = Some True
   \<and> map_option shouldTerminateStream (toolCompletedTimes 2 (reset 3 False initialCoordinator)) = Some False
   \<and> toolCompletedTimes (2 ^ 63) (reset 3 True initialCoordinator) = None"
proof -
  have small: "int 0 \<le> IntMax" "int 1 \<le> IntMax" "int 2 \<le> IntMax"
    by (simp_all add: IntMax_def)
  have big: "IntMax < int (2 ^ 63)"
    by (simp add: IntMax_def)
  have le: "(1::nat) \<le> 2" by simp
  show ?thesis
    using early_termination_policy[of 0 3 True initialCoordinator 0]
          early_termination_policy[of 1 3 True initialCoordinator 0]
          early_termination_policy[of 2 3 True initialCoordinator 1]
          early_termination_policy[of 2 3 False initialCoordinator 0]
          early_termination_policy[of "2 ^ 63" 3 True initialCoordinator 0]
          small big le
    by simp
qed

lemma runEvents_append:
  "runEvents (a @ b) c = (case runEvents a c of None \<Rightarrow> None | Some c' \<Rightarrow> runEvents b c')"
  by (induction a arbitrary: c) (auto split: option.splits)

lemma runEvents_completions:
  "list_all isCompletion post \<Longrightarrow> runEvents post c = toolCompletedTimes (length post) c"
proof (induction post arbitrary: c)
  case Nil
  show ?case by simp
next
  case (Cons e post)
  then show ?case by (cases e) (auto split: option.splits)
qed

text \<open>
  C6 (amended). The coordinator is one instance shared by all requests. After the most
  recent reset, by whichever request, and tool completions of whichever requests since,
  every request is told the same: to terminate exactly when that reset asked to stop after
  tool calls and at least one tool has completed since. What happened before that reset
  has no influence.
\<close>

theorem coordinator_shared:
  assumes "runEvents pre initialCoordinator \<noteq> None"
      and "list_all isCompletion post"
      and "int (length post) \<le> IntMax"
  shows "observedBy r (pre @ ResetBy q expectedTools stopAfterToolCalls # post) =
           Some (stopAfterToolCalls \<and> post \<noteq> [])"
proof -
  from assms(1) obtain c0 where c0: "runEvents pre initialCoordinator = Some c0"
    by auto
  have "runEvents (pre @ ResetBy q expectedTools stopAfterToolCalls # post) initialCoordinator =
        toolCompletedTimes (length post) (reset expectedTools stopAfterToolCalls c0)"
    by (simp add: runEvents_append c0 runEvents_completions[OF assms(2)])
  then show ?thesis
    using after_reset[OF assms(3), of expectedTools stopAfterToolCalls c0]
    by (simp add: observedBy_def)
qed

theorem coordinator_shared_witness:
  "observedBy 2 ([ResetBy 1 2 False, ToolCompletedBy 1] @ ResetBy 2 1 True # [ToolCompletedBy 1]) =
     Some True
   \<and> observedBy 1 ([ResetBy 1 2 True, ToolCompletedBy 1] @ ResetBy 2 1 False # []) = Some False"
proof -
  have a: "runEvents [ResetBy 1 2 False, ToolCompletedBy 1] initialCoordinator \<noteq> None"
    by (simp add: toolCompleted_def reset_def initialCoordinator_def IntMax_def)
  have a': "runEvents [ResetBy 1 2 True, ToolCompletedBy 1] initialCoordinator \<noteq> None"
    by (simp add: toolCompleted_def reset_def initialCoordinator_def IntMax_def)
  have b: "list_all isCompletion [ToolCompletedBy 1]" "list_all isCompletion []"
    by simp_all
  have c: "int (length [ToolCompletedBy 1]) \<le> IntMax" "int (length ([] :: coordinatorEvent list)) \<le> IntMax"
    by (simp_all add: IntMax_def)
  show ?thesis
    using coordinator_shared[OF a b(1) c(1), of 2 2 1 True]
          coordinator_shared[OF a' b(2) c(2), of 1 2 1 False]
    by simp
qed

theorem coordinator_isolation_counterexample:
  "observedBy 1 [ResetBy 1 1 True] = Some False
   \<and> observedBy 1 [ResetBy 1 1 True, ToolCompletedBy 2] = Some True"
  by (simp add: observedBy_def toolCompleted_def reset_def initialCoordinator_def IntMax_def
      shouldTerminateStream_def)

lemma dispatch_ok:
  assumes "prepareConversationContext P avail decoded temp maxTokens = Inr context"
      and "stream \<longrightarrow> hasOnChunk"
  shows "appleAIGenerateUnified P avail decoded toolsJsonString schemaJsonString temp maxTokens
           stream stopAfterToolCalls hasOnChunk =
         (case nonEmpty toolsJsonString of
            Some toolsStr \<Rightarrow>
              Dispatched TOOLS_MODE (Generate (HandleToolsMode context toolsStr stream stopAfterToolCalls))
          | None \<Rightarrow>
              (case nonEmpty schemaJsonString of
                 Some schemaStr \<Rightarrow>
                   Dispatched STRUCTURED_MODE
                     (if stream then EmitError ''Structured generation does not support streaming''
                      else Generate (HandleStructuredMode context schemaStr))
               | None \<Rightarrow>
                   Dispatched BASIC_MODE
                     (Generate (if stream then HandleBasicModeStream context else HandleBasicMode context))))"
  using assms by (cases stream) (simp_all add: appleAIGenerateUnified_def split: option.splits)

text \<open>
  C4 (amended). A request whose context is prepared (and which, when streaming, has a
  callback) takes exactly one of three branches, chosen by the presence of the tools JSON
  and of the schema JSON, not by the length of the tools list. With a tools JSON that is
  there and not the empty string, the tools handler runs on it, whether or not a schema is
  present and also when that JSON is the text of an empty list. Else, with a schema JSON
  that is there and not empty, the structured handler runs (when streaming, the error is
  sent instead). Else the basic handler runs, the streaming one when streaming. So a request
  that carries a non-empty tools list runs the tools handler; and the branch taken is the
  mode of the specification whenever a tools JSON that is there and not empty is the text
  of a non-empty list.
\<close>

theorem mode_priority:
  assumes "prepareConversationContext P avail decoded temp maxTokens = Inr context"
      and "stream \<longrightarrow> hasOnChunk"
  shows "(nonEmpty toolsJsonString = Some toolsStr \<longrightarrow>
            appleAIGenerateUnified P avail decoded toolsJsonString schemaJsonString temp maxTokens
              stream stopAfterToolCalls hasOnChunk =
            Dispatched TOOLS_MODE
              (Generate (HandleToolsMode context toolsStr stream stopAfterToolCalls)))
     \<and> (nonEmpty toolsJsonString = None \<and> nonEmpty schemaJsonString = Some schemaStr \<longrightarrow>
            appleAIGenerateUnified P avail decoded toolsJsonString schemaJsonString temp maxTokens
              stream stopAfterToolCalls hasOnChunk =
            Dispatched STRUCTURED_MODE
              (if stream then EmitError ''Structured generation does not support streaming''
               else Generate (HandleStructuredMode context schemaStr)))
     \<and> (nonEmpty toolsJsonString = None \<and> nonEmpty schemaJsonString = None \<longrightarrow>
            appleAIGenerateUnified P avail decoded toolsJsonString schemaJsonString temp maxTokens
              stream stopAfterToolCalls hasOnChunk =
            Dispatched BASIC_MODE
              (Generate (if stream then HandleBasicModeStream context else HandleBasicMode context)))
     \<and> (jsonObject P [] = None \<and> carriesTools P toolsJsonString \<longrightarrow>
            (\<exists>toolsStr.
               appleAIGenerateUnified P avail decoded toolsJsonString schemaJsonString temp maxTokens
                 stream stopAfterToolCalls hasOnChunk =
               Dispatched TOOLS_MODE
                 (Generate (HandleToolsMode context toolsStr stream stopAfterToolCalls))))
     \<and> (jsonObject P [] = None \<and>
          (nonEmpty toolsJsonString \<noteq> None \<longrightarrow> carriesTools P toolsJsonString) \<longrightarrow>
            dispatchedMode
              (appleAIGenerateUnified P avail decoded toolsJsonString schemaJsonString temp maxTokens
                 stream stopAfterToolCalls hasOnChunk) =
            Some (modeByPriority P toolsJsonString schemaJsonString))"
proof -
  let ?D = "appleAIGenerateUnified P avail decoded toolsJsonString schemaJsonString temp maxTokens
      stream stopAfterToolCalls hasOnChunk"
  have carried: "nonEmpty toolsJsonString \<noteq> None"
    if "jsonObject P [] = None" "carriesTools P toolsJsonString"
    using that by (cases toolsJsonString) (auto simp: carriesTools_def nonEmpty_def)
  have tools: "?D = Dispatched TOOLS_MODE
      (Generate (HandleToolsMode context str stream stopAfterToolCalls))"
    if "nonEmpty toolsJsonString = Some str" for str
    using that by (simp add: dispatch_ok[OF assms])
  have structured: "?D = Dispatched STRUCTURED_MODE
      (if stream then EmitError ''Structured generation does not support streaming''
       else Generate (HandleStructuredMode context str))"
    if "nonEmpty toolsJsonString = None" "nonEmpty schemaJsonString = Some str" for str
    using that by (simp add: dispatch_ok[OF assms])
  have basic: "?D = Dispatched BASIC_MODE
      (Generate (if stream then HandleBasicModeStream context else HandleBasicMode context))"
    if "nonEmpty toolsJsonString = None" "nonEmpty schemaJsonString = None"
    using that by (simp add: dispatch_ok[OF assms])
  have list: "\<exists>str. ?D = Dispatched TOOLS_MODE
      (Generate (HandleToolsMode context str stream stopAfterToolCalls))"
    if "jsonObject P [] = None" "carriesTools P toolsJsonString"
    using carried[OF that] tools by auto
  have agree: "dispatchedMode ?D = Some (modeByPriority P toolsJsonString schemaJsonString)"
    if e: "jsonObject P [] = None"
      and c: "nonEmpty toolsJsonString \<noteq> None \<longrightarrow> carriesTools P toolsJsonString"
  proof (cases "nonEmpty toolsJsonString")
    case None
    then have "\<not> carriesTools P toolsJsonString"
      using carried[OF e] by auto
    with None show ?thesis
      by (cases "nonEmpty schemaJsonString")
         (simp_all add: dispatch_ok[OF assms] modeByPriority_def dispatchedMode_def)
  next
    case (Some str)
    with c have "carriesTools P toolsJsonString" by simp
    with Some show ?thesis
      by (simp add: dispatch_ok[OF assms] modeByPriority_def dispatchedMode_def)
  qed
  show ?thesis
    using tools structured basic list agree by blast
qed

lemma prepare_example:
  "prepareConversationContext examplePlatform Available (Inr [message ''user'' ''Hi'']) 0 0 =
     Inr \<lparr>currentPrompt = ''Hi'', transcriptEntries = [],
          options = \<lparr>temperature = None, maximumResponseTokens = None\<rparr>\<rparr>"
proof -
  have "lowercased (role (message ''user'' ''Hi'')) = ''user''"
    by (simp add: message_def lowercased_def lowercasedChar_def)
  moreover have "orEmpty (content (message ''user'' ''Hi'')) = ''Hi''"
    by (simp add: message_def orEmpty_def)
  ultimately show ?thesis
    by (simp add: prepareConversationContext_def makeOptions_def convertMessagesToTranscript_def)
qed

theorem mode_priority_witness:
  \<open>appleAIGenerateUnified examplePlatform Available (Inr [message ''user'' ''Hi''])
      (Some ''[{"id":1,"name":"add"}]'') (Some ''{"type":"object"}'') 0 0 False True False =
    Dispatched TOOLS_MODE
      (Generate (HandleToolsMode
         \<lparr>currentPrompt = ''Hi'', transcriptEntries = [],
          options = \<lparr>temperature = None, maximumResponseTokens = None\<rparr>\<rparr>
         ''[{"id":1,"name":"add"}]'' False True))
   \<and> dispatchedMode
      (appleAIGenerateUnified examplePlatform Available (Inr [message ''user'' ''Hi''])
        (Some ''[{"id":1,"name":"add"}]'') (Some ''{"type":"object"}'') 0 0 False True False) =
     Some (modeByPriority examplePlatform (Some ''[{"id":1,"name":"add"}]'') (Some ''{"type":"object"}''))
   \<and> appleAIGenerateUnified examplePlatform Available (Inr [message ''user'' ''Hi''])
      None (Some ''{"type":"object"}'') 0 0 False True False =
    Dispatched STRUCTURED_MODE
      (Generate (HandleStructuredMode
         \<lparr>currentPrompt = ''Hi'', transcriptEntries = [],
          options = \<lparr>temperature = None, maximumResponseTokens = None\<rparr>\<rparr>
         ''{"type":"object"}''))
   \<and> appleAIGenerateUnified examplePlatform Available (Inr [message ''user'' ''Hi''])
      (Some []) None 0 0 True True True =
    Dispatched BASIC_MODE
      (Generate (HandleBasicModeStream
         \<lparr>currentPrompt = ''Hi'', transcriptEntries = [],
          options = \<lparr>temperature = None, maximumResponseTokens = None\<rparr>\<rparr>))\<close>
proof -
  have a: "False \<longrightarrow> False" by simp
  have b: "True \<longrightarrow> True" by simp
  have t: \<open>nonEmpty (Some ''[{"id":1,"name":"add"}]'') = Some ''[{"id":1,"name":"add"}]''\<close>
    by (simp add: nonEmpty_def)
  have s: \<open>nonEmpty (Some ''{"type":"object"}'') = Some ''{"type":"object"}''\<close>
    by (simp add: nonEmpty_def)
  have n: "nonEmpty None = None" "nonEmpty (Some []) = None"
    by (simp_all add: nonEmpty_def)
  have e: "jsonObject examplePlatform [] = None"
    by (simp add: examplePlatform_def sumDocument_def twiceDocument_def)
  have c: \<open>carriesTools examplePlatform (Some ''[{"id":1,"name":"add"}]'')\<close>
    by (simp add: carriesTools_def examplePlatform_def sumDocument_def twiceDocument_def)
  note both = mode_priority[OF prepare_example a, of \<open>Some ''[{"id":1,"name":"add"}]''\<close>
      \<open>''[{"id":1,"name":"add"}]''\<close> \<open>Some ''{"type":"object"}''\<close> True]
  note schema = mode_priority[OF prepare_example a, of None _ \<open>Some ''{"type":"object"}''\<close> True
      \<open>''{"type":"object"}''\<close>]
  note basic = mode_priority[OF prepare_example b, of "Some []" _ None True]
  from both t have 1: \<open>appleAIGenerateUnified examplePlatform Available (Inr [message ''user'' ''Hi''])
      (Some ''[{"id":1,"name":"add"}]'') (Some ''{"type":"object"}'') 0 0 False True False =
    Dispatched TOOLS_MODE
      (Generate (HandleToolsMode
         \<lparr>currentPrompt = ''Hi'', transcriptEntries = [],
          options = \<lparr>temperature = None, maximumResponseTokens = None\<rparr>\<rparr>
         ''[{"id":1,"name":"add"}]'' False True))\<close>
    by blast
  from both t e c have 2: \<open>dispatchedMode
      (appleAIGenerateUnified examplePlatform Available (Inr [message ''user'' ''Hi''])
        (Some ''[{"id":1,"name":"add"}]'') (Some ''{"type":"object"}'') 0 0 False True False) =
     Some (modeByPriority examplePlatform (Some ''[{"id":1,"name":"add"}]'') (Some ''{"type":"object"}''))\<close>
    by blast
  from schema n s have 3: \<open>appleAIGenerateUnified examplePlatform Available (Inr [message ''user'' ''Hi''])
      None (Some ''{"type":"object"}'') 0 0 False True False =
    Dispatched STRUCTURED_MODE
      (Generate (HandleStructuredMode
         \<lparr>currentPrompt = ''Hi'', transcriptEntries = [],
          options = \<lparr>temperature = None, maximumResponseTokens = None\<rparr>\<rparr>
         ''{"type":"object"}''))\<close>
    by simp
  from basic n have 4: \<open>appleAIGenerateUnified examplePlatform Available (Inr [message ''user'' ''Hi''])
      (Some []) None 0 0 True True True =
    Dispatched BASIC_MODE
      (Generate (HandleBasicModeStream
         \<lparr>currentPrompt = ''Hi'', transcriptEntries = [],
          options = \<lparr>temperature = None, maximumResponseTokens = None\<rparr>\<rparr>))\<close>
    by simp
  show ?thesis
    using 1 2 3 4 by blast
qed

theorem empty_tools_list_counterexample:
  \<open>appleAIGenerateUnified examplePlatform Available (Inr [message ''user'' ''Hi''])
      (Some ''[]'') None 0 0 False True False =
    Dispatched TOOLS_MODE
      (Generate (HandleToolsMode
         \<lparr>currentPrompt = ''Hi'', transcriptEntries = [],
          options = \<lparr>temperature = None, maximumResponseTokens = None\<rparr>\<rparr>
         ''[]'' False True))
   \<and> \<not> carriesTools examplePlatform (Some ''[]'')
   \<and> modeByPriority examplePlatform (Some ''[]'') None = BASIC_MODE\<close>
proof -
  have \<open>appleAIGenerateUnified examplePlatform Available (Inr [message ''user'' ''Hi''])
      (Some ''[]'') None 0 0 False True False =
    Dispatched TOOLS_MODE
      (Generate (HandleToolsMode
         \<lparr>currentPrompt = ''Hi'', transcriptEntries = [],
          options = \<lparr>temperature = None, maximumResponseTokens = None\<rparr>\<rparr>
         ''[]'' False True))\<close>
    by (simp add: appleAIGenerateUnified_def prepare_example nonEmpty_def)
  moreover have \<open>\<not> carriesTools examplePlatform (Some ''[]'')\<close>
    by (simp add: carriesTools_def examplePlatform_def sumDocument_def twiceDocument_def)
  ultimately show ?thesis
    by (simp add: modeByPriority_def nonEmpty_def)
qed



section \<open>Properties of the streaming loops\<close>

lemma cString_empty: "cString d = [] \<longleftrightarrow> d = [] \<or> startsWithNUL d"
  by (cases d) (simp_all add: cString_def startsWithNUL_def)

lemma isData_cString: "isData (Some (cString d)) \<longleftrightarrow> d \<noteq> [] \<and> \<not> startsWithNUL d"
  by (simp add: isData_def cString_empty)

lemma basicStreamLoop_data:
  "list_all isData (basicStreamLoop prev snapshots) = cleanDeltas prev snapshots"
  by (induction snapshots arbitrary: prev)
     (simp_all add: Let_def isData_cString startsWithNUL_def)

lemma basicStreamLoop_no_nil: "None \<notin> set (basicStreamLoop prev snapshots)"
  by (induction snapshots arbitrary: prev) (simp_all add: Let_def)

lemma toolsStreamLoop_data:
  "cleanDeltas prev (snapshotsOf events) \<Longrightarrow>
   list_all isData (fst (toolsStreamLoop stopAfterToolCalls prev events shared))"
  by (induction stopAfterToolCalls prev events shared rule: toolsStreamLoop.induct)
     (simp_all add: Let_def isData_cString split_beta split: option.splits)

lemma isData_emitError: "isData (emitError description)"
  by (simp add: isData_def emitError_def cString_def ERROR_SENTINEL_def NUL_def)

text \<open>The shape of everything a streaming task sends: data chunks, then at most one more
  chunk, which is \<open>nil\<close> or the error chunk.\<close>

lemma streamed_basic_shape:
  assumes "cleanDeltas [] snapshots"
  shows "\<exists>ds. list_all isData ds \<and>
     (streamed (handleBasicModeStream snapshots failure) = ds \<or>
      streamed (handleBasicModeStream snapshots failure) = ds @ [None])"
proof (cases failure)
  case None
  then show ?thesis
    using basicStreamLoop_data[of "[]" snapshots] assms
    by (auto simp: streamed_def handleBasicModeStream_def)
next
  case (Some description)
  have "list_all isData (basicStreamLoop [] snapshots @ [emitError description])"
    using basicStreamLoop_data[of "[]" snapshots] isData_emitError assms by simp
  with Some show ?thesis
    by (intro exI[of _ "basicStreamLoop [] snapshots @ [emitError description]"])
       (simp add: streamed_def handleBasicModeStream_def)
qed

lemma streamed_tools_shape:
  assumes "cleanDeltas [] (snapshotsOf events)"
  shows "\<exists>ds. list_all isData ds \<and>
     (streamed (handleToolsModeStream stopAfterToolCalls toolCount events failure shared) = ds \<or>
      streamed (handleToolsModeStream stopAfterToolCalls toolCount events failure shared) = ds @ [None])"
proof -
  obtain chunks ending where loop:
    "toolsStreamLoop stopAfterToolCalls [] events (reset toolCount stopAfterToolCalls shared) =
       (chunks, ending)"
    by (cases "toolsStreamLoop stopAfterToolCalls [] events (reset toolCount stopAfterToolCalls shared)")
  have data: "list_all isData chunks"
    using toolsStreamLoop_data[OF assms, of stopAfterToolCalls "reset toolCount stopAfterToolCalls shared"]
    by (simp add: loop)
  then have data': "list_all isData (chunks @ [emitError description])" for description
    using isData_emitError by simp
  show ?thesis
  proof (cases "ending = Exhausted \<and> failure \<noteq> None")
    case True
    then obtain description where "failure = Some description" by auto
    with True data' show ?thesis
      by (intro exI[of _ "chunks @ [emitError description]"])
         (simp add: streamed_def handleToolsModeStream_def loop)
  next
    case False
    with data show ?thesis
      by (intro exI[of _ chunks], cases ending; cases failure)
         (simp_all add: streamed_def handleToolsModeStream_def loop)
  qed
qed

lemma deliver_append: "deliver (xs @ ys) st = deliver ys (deliver xs st)"
  by (induction xs arbitrary: st) simp_all

lemma deliver_data:
  "list_all isData ds \<Longrightarrow>
   streamDone (deliver ds st) = streamDone st \<and>
   map Some (received (deliver ds st)) = map Some (received st) @ ds"
proof (induction ds arbitrary: st)
  case Nil
  show ?case by simp
next
  case (Cons d ds)
  from Cons.prems obtain str where d: "d = Some str" "str \<noteq> []"
    by (auto simp: isData_def split: option.splits)
  from Cons.prems have "list_all isData ds" by simp
  from Cons.IH[OF this, of "handleChunk None d st"] show ?case
    by (simp add: d handleChunk_def)
qed

lemma take_data: "list_all isData ds \<Longrightarrow> list_all isData (take k ds)"
  by (auto simp: list_all_iff dest: in_set_takeD)

lemma shape_properties:
  assumes "list_all isData ds" and "cs = ds \<or> cs = ds @ [None]"
  shows "list_all isData (butlast cs)"
    and "Some [] \<notin> set cs"
    and "None \<in> set cs \<longrightarrow> cs \<noteq> [] \<and> last cs = None \<and> None \<notin> set (butlast cs)"
    and "k \<le> length cs \<Longrightarrow>
         streamDone (deliver (take k cs) newConsumer) = (k = length cs \<and> None \<in> set cs)"
    and "map Some (received (deliver cs newConsumer)) = filter isData cs"
proof -
  have noNone: "None \<notin> set ds" and noEmpty: "Some [] \<notin> set ds"
    using assms(1) by (auto simp: list_all_iff isData_def)
  show "list_all isData (butlast cs)"
    using assms by (auto simp: list_all_iff dest: in_set_butlastD)
  show "Some [] \<notin> set cs"
    using assms(2) noEmpty by auto
  show "None \<in> set cs \<longrightarrow> cs \<noteq> [] \<and> last cs = None \<and> None \<notin> set (butlast cs)"
    using assms(2) noNone by auto
  show "map Some (received (deliver cs newConsumer)) = filter isData cs"
  proof -
    have f: "filter isData ds = ds"
      using assms(1) by (simp add: list_all_iff)
    from assms(2) show ?thesis
    proof
      assume "cs = ds"
      then show ?thesis
        using deliver_data[OF assms(1), of newConsumer] f by (simp add: newConsumer_def)
    next
      assume "cs = ds @ [None]"
      then show ?thesis
        using deliver_data[OF assms(1), of newConsumer] f
        by (simp add: deliver_append handleChunk_def newConsumer_def isData_def)
    qed
  qed
  show "streamDone (deliver (take k cs) newConsumer) = (k = length cs \<and> None \<in> set cs)"
    if k: "k \<le> length cs"
  proof (cases "k \<le> length ds")
    case True
    then have "take k cs = take k ds"
      using assms(2) by auto
    moreover have "\<not> streamDone (deliver (take k ds) newConsumer)"
      using deliver_data[OF take_data[OF assms(1)], of k newConsumer] by (simp add: newConsumer_def)
    moreover have "\<not> (k = length cs \<and> None \<in> set cs)"
      using True assms(2) noNone by auto
    ultimately show ?thesis by simp
  next
    case False
    with k assms(2) have cs: "cs = ds @ [None]" and "k = length cs"
      by auto
    then show ?thesis
      using deliver_data[OF assms(1), of newConsumer]
      by (simp add: deliver_append handleChunk_def)
  qed
qed

lemma basic_empty_chunk:
  "Some [] \<in> set (streamed (handleBasicModeStream snapshots failure)) \<longleftrightarrow>
   \<not> cleanDeltas [] snapshots"
proof -
  have "isData c \<longleftrightarrow> c \<noteq> Some []" if "c \<noteq> None" for c
    using that by (cases c) (simp_all add: isData_def)
  then have "Some [] \<in> set (basicStreamLoop [] snapshots) \<longleftrightarrow>
      \<not> list_all isData (basicStreamLoop [] snapshots)"
    using basicStreamLoop_no_nil[of "[]" snapshots]
    unfolding list_all_iff by metis
  then have loop: "Some [] \<in> set (basicStreamLoop [] snapshots) \<longleftrightarrow> \<not> cleanDeltas [] snapshots"
    by (simp add: basicStreamLoop_data)
  have ne: "Some [] \<noteq> emitError description" for description
    by (simp add: emitError_def cString_def ERROR_SENTINEL_def NUL_def)
  show ?thesis
  proof (cases failure)
    case None
    then show ?thesis
      using loop by (simp add: streamed_def handleBasicModeStream_def)
  next
    case (Some description)
    then show ?thesis
      using loop ne[of description] by (simp add: streamed_def handleBasicModeStream_def)
  qed
qed

text \<open>
  C10 (amended). In both streaming modes, whatever the session yields and whether or not it
  fails, and also when the streaming task sends nothing but an error, provided that no
  delta of the cumulative text begins with U+0000: every chunk sent before the last one is
  a non-empty string, no chunk at all is the empty string, and \<open>nil\<close> is sent at most
  once, as the last chunk. So the consumer, which takes \<open>nil\<close> or the empty string for the
  end of the stream, is done after no proper prefix of the chunks: it is done exactly when
  the final \<open>nil\<close> has arrived, and what it has received are the data chunks, in order.
  The proviso cannot be dropped: the basic stream sends an empty string exactly when one
  of its deltas begins with U+0000.
\<close>

theorem non_empty_chunk_invariant:
  assumes "cs = streamed (handleBasicModeStream snapshots failure) \<and> cleanDeltas [] snapshots \<or>
           cs = streamed (handleToolsModeStream stopAfterToolCalls toolCount events failure shared) \<and>
             cleanDeltas [] (snapshotsOf events) \<or>
           cs = [emitError description]"
  shows "list_all isData (butlast cs)
     \<and> Some [] \<notin> set cs
     \<and> (None \<in> set cs \<longrightarrow> cs \<noteq> [] \<and> last cs = None \<and> None \<notin> set (butlast cs))
     \<and> (k \<le> length cs \<longrightarrow>
           streamDone (deliver (take k cs) newConsumer) = (k = length cs \<and> None \<in> set cs))
     \<and> map Some (received (deliver cs newConsumer)) = filter isData cs
     \<and> (Some [] \<in> set (streamed (handleBasicModeStream snapshots failure)) \<longleftrightarrow>
          \<not> cleanDeltas [] snapshots)"
proof -
  have "list_all isData [emitError description]"
    by (simp add: isData_emitError)
  with assms obtain ds where ds: "list_all isData ds" "cs = ds \<or> cs = ds @ [None]"
    using streamed_basic_shape[of snapshots failure]
          streamed_tools_shape[of events stopAfterToolCalls toolCount failure shared]
    by blast
  show ?thesis
    using shape_properties[OF ds] basic_empty_chunk[of snapshots failure] by blast
qed

theorem non_empty_chunk_invariant_witness:
  "streamed (handleBasicModeStream [''He'', ''Hello'', ''Hello'', ''Hello!''] None) =
     [Some ''He'', Some ''llo'', Some ''!'', None]
   \<and> list_all isData [Some ''He'', Some ''llo'', Some ''!'']
   \<and> streamDone (deliver [Some ''He'', Some ''llo'', Some ''!'', None] newConsumer)
   \<and> \<not> streamDone (deliver [Some ''He'', Some ''llo'', Some ''!''] newConsumer)
   \<and> streamed (handleToolsModeStream True 1
        [Snapshot ''Hi'', Coordinator (ToolCompletedBy 1), Snapshot ''Hi there''] None
        initialCoordinator) = [Some ''Hi'', None]
   \<and> \<not> streamDone (deliver [Some ''Hi''] newConsumer)"
proof -
  let ?basic = "streamed (handleBasicModeStream [''He'', ''Hello'', ''Hello'', ''Hello!''] None)"
  let ?tools = "streamed (handleToolsModeStream True 1
        [Snapshot ''Hi'', Coordinator (ToolCompletedBy 1), Snapshot ''Hi there''] None
        initialCoordinator)"
  have b: "?basic = [Some ''He'', Some ''llo'', Some ''!'', None]"
    by (simp add: streamed_def handleBasicModeStream_def cString_def NUL_def)
  have t: "?tools = [Some ''Hi'', None]"
    by (simp add: streamed_def handleToolsModeStream_def reset_def initialCoordinator_def
        toolCompleted_def shouldTerminateStream_def IntMax_def cString_def NUL_def)
  have cb: "cleanDeltas [] [''He'', ''Hello'', ''Hello'', ''Hello!'']"
    by (simp add: startsWithNUL_def NUL_def)
  have ct: "cleanDeltas []
      (snapshotsOf [Snapshot ''Hi'', Coordinator (ToolCompletedBy 1), Snapshot ''Hi there''])"
    by (simp add: startsWithNUL_def NUL_def)
  have "?basic = streamed (handleBasicModeStream [''He'', ''Hello'', ''Hello'', ''Hello!''] None) \<and>
          cleanDeltas [] [''He'', ''Hello'', ''Hello'', ''Hello!''] \<or>
        ?basic = streamed (handleToolsModeStream True 1 [] None initialCoordinator) \<and>
          cleanDeltas [] (snapshotsOf []) \<or>
        ?basic = [emitError []]"
    using cb by simp
  note basic = non_empty_chunk_invariant[OF this]
  have "?tools = streamed (handleBasicModeStream [] None) \<and> cleanDeltas [] [] \<or>
        ?tools = streamed (handleToolsModeStream True 1
          [Snapshot ''Hi'', Coordinator (ToolCompletedBy 1), Snapshot ''Hi there''] None
          initialCoordinator) \<and>
          cleanDeltas []
            (snapshotsOf [Snapshot ''Hi'', Coordinator (ToolCompletedBy 1), Snapshot ''Hi there'']) \<or>
        ?tools = [emitError []]"
    using ct by simp
  note tools = non_empty_chunk_invariant[OF this]
  from basic[of "Suc (Suc (Suc 0))"] have 1: "list_all isData [Some ''He'', Some ''llo'', Some ''!'']"
    and 3: "\<not> streamDone (deliver [Some ''He'', Some ''llo'', Some ''!''] newConsumer)"
    unfolding b by simp_all
  from basic[of "Suc (Suc (Suc (Suc 0)))"]
  have 2: "streamDone (deliver [Some ''He'', Some ''llo'', Some ''!'', None] newConsumer)"
    unfolding b by simp
  from tools[of "Suc 0"] have 4: "\<not> streamDone (deliver [Some ''Hi''] newConsumer)"
    unfolding t by simp
  show ?thesis
    using b t 1 2 3 4 by simp
qed

theorem nul_delta_counterexample:
  "streamed (handleBasicModeStream [''Hi'', ''Hi'' @ [CHR 0x00] @ ''there''] None) =
     [Some ''Hi'', Some [], None]
   \<and> streamDone (deliver [Some ''Hi'', Some []] newConsumer)"
  by (simp add: streamed_def handleBasicModeStream_def cString_def NUL_def handleChunk_def
      newConsumer_def)

section \<open>Properties of the tool call bridge\<close>

lemma onNativeChunk_keeps:
  "pendingToolCalls (onNativeChunk err chunk b) = pendingToolCalls b \<and>
   toolResults (onNativeChunk err chunk b) = toolResults b"
  by (simp add: onNativeChunk_def push_def split: option.splits)

lemma push_keeps [simp]:
  "pendingToolCalls (push item b) = pendingToolCalls b" "toolResults (push item b) = toolResults b"
  by (simp_all add: push_def)

lemma toolResult_fields [simp]:
  "pendingToolCalls (toolResult toolId resultJson b) = pendingToolCalls b"
  "toolResults (toolResult toolId resultJson b) = toolResults b @ [(toolId, resultJson)]"
  "readable (toolResult toolId resultJson b) = readable b"
  by (simp_all add: toolResult_def)




text \<open>
  C5. The request of the claim, run on the code: the runtime calls the tool callback for tool 1,
  a pending tool call is created and its tool-call event sent, and the stream then ends before
  any result is injected. After the end-of-stream handler has run, the stream is closed and
  the callback unregistered, but the pending tool call is still in the map and no result,
  synthetic or other, has been delivered for it.
\<close>

theorem pending_call_left_unresolved:
  \<open>pendingToolCalls
      (onNativeChunk None None
        (externalToolCallback exampleJS [addTool] None 1 ''{"a":2,"b":3}'' ''7f3a'' newBridge))
      ''tool-call-7f3a'' = Some 1
   \<and> toolResults
      (onNativeChunk None None
        (externalToolCallback exampleJS [addTool] None 1 ''{"a":2,"b":3}'' ''7f3a'' newBridge)) = []
   \<and> readableEnded
      (onNativeChunk None None
        (externalToolCallback exampleJS [addTool] None 1 ''{"a":2,"b":3}'' ''7f3a'' newBridge))
   \<and> \<not> callbackSet
      (onNativeChunk None None
        (externalToolCallback exampleJS [addTool] None 1 ''{"a":2,"b":3}'' ''7f3a'' newBridge))
   \<and> readable
      (onNativeChunk None None
        (externalToolCallback exampleJS [addTool] None 1 ''{"a":2,"b":3}'' ''7f3a'' newBridge)) =
     [ToolCallItem ''tool-call-7f3a'' ''add'' (JObject [(''a'', JNumber 2), (''b'', JNumber 3)])]\<close>
  by (simp add: onNativeChunk_def externalToolCallback_def lookupTool_def exampleJS_def
      push_def newBridge_def addTool_def)

end
